theory Spec2Isabelle
  imports Complex_Main "HOL-Library.List_Lexorder" "HOL-Library.Char_ord" "HOL-Library.AList"
    "HOL-Library.Multiset"
begin

section \<open>Numbers, errors and rounding\<close>

text \<open>
  The analytics backend (\<^verbatim>\<open>backend/server.py\<close>) computes with Python floats. The
  embedding uses exact arithmetic: a float is a \<^typ>\<open>real\<close>, so every statement below is
  about the formulas of the code evaluated without floating-point error. Python integers
  are \<^typ>\<open>int\<close> (or \<^typ>\<open>nat\<close> for a length).
\<close>

datatype error = ValueError | OverflowError | KeyError | IndexError | ZeroDivisionError

text \<open>
  \<^verbatim>\<open>round(x, ndigits)\<close>: the nearest multiple of \<open>10 ^ -ndigits\<close>, a tie going to
  the even neighbour.
\<close>

definition round_half_even :: "real \<Rightarrow> int" where
  "round_half_even s =
     (let f = \<lfloor>s\<rfloor>; d = s - of_int f
      in if d < 1 / 2 then f else if 1 / 2 < d then f + 1 else if even f then f else f + 1)"

definition py_round :: "real \<Rightarrow> nat \<Rightarrow> real" where
  "py_round x ndigits = of_int (round_half_even (x * 10 ^ ndigits)) / 10 ^ ndigits"

section \<open>Dates\<close>

text \<open>
  A \<^verbatim>\<open>datetime\<close> object, all in UTC as the code creates them. The helper functions
  follow the proleptic Gregorian ordinal arithmetic of Python's \<^verbatim>\<open>datetime\<close> module:
  day 1 is 0001-01-01 and the last representable day, 9999-12-31, is day 3652059.
\<close>

record datetime =
  year :: int
  month :: int
  day :: int
  hour :: int
  minute :: int
  second :: int
  microsecond :: int

definition is_leap :: "int \<Rightarrow> bool" where
  "is_leap y = (y mod 4 = 0 \<and> (y mod 100 \<noteq> 0 \<or> y mod 400 = 0))"

definition days_before_year :: "int \<Rightarrow> int" where
  "days_before_year y = (let z = y - 1 in z * 365 + z div 4 - z div 100 + z div 400)"

definition DAYS_IN_MONTH :: "int list" where
  "DAYS_IN_MONTH = [31, 28, 31, 30, 31, 30, 31, 31, 30, 31, 30, 31]"

definition DAYS_BEFORE_MONTH :: "int list" where
  "DAYS_BEFORE_MONTH = [0, 31, 59, 90, 120, 151, 181, 212, 243, 273, 304, 334]"

definition days_before_month :: "int \<Rightarrow> int \<Rightarrow> int" where
  "days_before_month y m =
     DAYS_BEFORE_MONTH ! nat (m - 1) + (if 2 < m \<and> is_leap y then 1 else 0)"

definition ymd2ord :: "int \<Rightarrow> int \<Rightarrow> int \<Rightarrow> int" where
  "ymd2ord y m d = days_before_year y + days_before_month y m + d"

definition toordinal :: "datetime \<Rightarrow> int" where
  "toordinal t = ymd2ord (year t) (month t) (day t)"

definition ord2ymd :: "int \<Rightarrow> int \<times> int \<times> int" where
  "ord2ymd n0 =
     (let n = n0 - 1;
          n400 = n div 146097; n = n mod 146097;
          n100 = n div 36524; n = n mod 36524;
          n4 = n div 1461; n = n mod 1461;
          n1 = n div 365; n = n mod 365;
          y = n400 * 400 + 1 + n100 * 100 + n4 * 4 + n1
      in if n1 = 4 \<or> n100 = 4 then (y - 1, 12, 31)
         else
           (let leapyear = (n1 = 3 \<and> (n4 \<noteq> 24 \<or> n100 = 3));
                m = (n + 50) div 32;
                preceding = DAYS_BEFORE_MONTH ! nat (m - 1) + (if 2 < m \<and> leapyear then 1 else 0)
            in if n < preceding
               then (let m' = m - 1;
                         preceding' = preceding
                           - (DAYS_IN_MONTH ! nat (m' - 1) + (if m' = 2 \<and> leapyear then 1 else 0))
                     in (y, m', n - preceding' + 1))
               else (y, m, n - preceding + 1)))"

definition MAXORDINAL :: int where
  "MAXORDINAL = 3652059"

text \<open>
  \<^verbatim>\<open>t + timedelta(days=k)\<close> (and \<^verbatim>\<open>t - timedelta(days=k)\<close> with \<open>- k\<close>): the time of
  day is kept, and a result outside year 1..9999 raises \<^verbatim>\<open>OverflowError\<close>.
\<close>

definition add_days :: "datetime \<Rightarrow> int \<Rightarrow> error + datetime" where
  "add_days t k =
     (let n = toordinal t + k
      in if 1 \<le> n \<and> n \<le> MAXORDINAL
         then (case ord2ymd n of (y, m, d) \<Rightarrow> Inr (t\<lparr>year := y, month := m, day := d\<rparr>))
         else Inl OverflowError)"

text \<open>Microseconds since the start of day 0: the total order of datetimes.\<close>

definition to_micros :: "datetime \<Rightarrow> int" where
  "to_micros t =
     (((toordinal t * 24 + hour t) * 60 + minute t) * 60 + second t) * 1000000 + microsecond t"

text \<open>\<^verbatim>\<open>(a - b).days\<close>: a \<^verbatim>\<open>timedelta\<close> is normalised, so its days are the floor.\<close>

definition timedelta_days :: "datetime \<Rightarrow> datetime \<Rightarrow> int" where
  "timedelta_days a b = (to_micros a - to_micros b) div 86400000000"

text \<open>\<^verbatim>\<open>max(order_dates)\<close>: the first maximal element; \<^verbatim>\<open>ValueError\<close> on an empty list.\<close>

fun max_from :: "datetime \<Rightarrow> datetime list \<Rightarrow> datetime" where
  "max_from m [] = m"
| "max_from m (t # ts) = max_from (if to_micros m < to_micros t then t else m) ts"

definition max_datetime :: "datetime list \<Rightarrow> error + datetime" where
  "max_datetime ts = (case ts of [] \<Rightarrow> Inl ValueError | t # ts' \<Rightarrow> Inr (max_from t ts'))"

subsection \<open>Decimal strings\<close>

definition digit_char :: "nat \<Rightarrow> char" where
  "digit_char n = ''0123456789'' ! n"

fun str_nat :: "nat \<Rightarrow> string" where
  "str_nat n = (if n < 10 then [digit_char n] else str_nat (n div 10) @ [digit_char (n mod 10)])"

declare str_nat.simps [simp del]

text \<open>\<^verbatim>\<open>str(i)\<close> of an integer.\<close>

definition str_int :: "int \<Rightarrow> string" where
  "str_int i = (if i < 0 then CHR ''-'' # str_nat (nat (- i)) else str_nat (nat i))"

text \<open>Zero-padding on the left to a width, as the \<^verbatim>\<open>%Y\<close> and \<^verbatim>\<open>%m\<close> fields of \<^verbatim>\<open>strftime\<close> do.\<close>

definition zfill :: "nat \<Rightarrow> string \<Rightarrow> string" where
  "zfill w s = replicate (w - length s) (CHR ''0'') @ s"

text \<open>\<^verbatim>\<open>t.strftime("%Y-%m")\<close>.\<close>

definition strftime_Ym :: "datetime \<Rightarrow> string" where
  "strftime_Ym t = zfill 4 (str_int (year t)) @ ''-'' @ zfill 2 (str_int (month t))"

section \<open>Data model\<close>

text \<open>\<^verbatim>\<open>class SalesRecord(BaseModel)\<close>; the persistence layer stores and returns it as a document.\<close>

record SalesRecord =
  id :: string
  region :: string
  country :: string
  customer_id :: string
  customer_name :: string
  product_category :: string
  product_name :: string
  sales_rep :: string
  order_date :: datetime
  revenue :: real
  quantity :: int
  deal_size :: real
  currency :: string
  payment_status :: string
  payment_due_date :: datetime
  days_overdue :: int

text \<open>
  The entry of the \<^verbatim>\<open>customer_profiles\<close> dictionary that \<^verbatim>\<open>generate_mock_data\<close> builds
  while it emits records.
\<close>

record profile =
  customer_id :: string
  customer_name :: string
  region :: string
  country :: string
  industry :: string
  company_size :: string
  orders :: "SalesRecord list"
  total_revenue :: real
  overdue_count :: int

text \<open>\<^verbatim>\<open>class CustomerProfile(BaseModel)\<close>.\<close>

record CustomerProfile =
  id :: string
  customer_id :: string
  customer_name :: string
  region :: string
  country :: string
  industry :: string
  company_size :: string
  total_revenue :: real
  avg_deal_size :: real
  payment_history_score :: real
  risk_score :: real
  risk_category :: string
  last_order_date :: "datetime option"
  days_since_last_order :: int

text \<open>
  The document store: two collections, each returned by a query in insertion order.
\<close>

record db =
  sales_records :: "SalesRecord list"
  customer_profiles :: "CustomerProfile list"

section \<open>DataSynthesizer: customer profiles\<close>

text \<open>
  The second half of one iteration of the generation loop (\<^verbatim>\<open># Build customer profiles\<close>):
  the dictionary \<^verbatim>\<open>customer_profiles\<close> is an association list in insertion order. The
  record just emitted, the unrounded \<^verbatim>\<open>revenue\<close> it was made from and the two random
  choices for a new customer are arguments.
\<close>

definition new_profile :: "SalesRecord \<Rightarrow> string \<Rightarrow> string \<Rightarrow> profile" where
  "new_profile r ind sz =
     \<lparr>profile.customer_id = SalesRecord.customer_id r,
      profile.customer_name = SalesRecord.customer_name r,
      profile.region = SalesRecord.region r,
      profile.country = SalesRecord.country r,
      profile.industry = ind,
      profile.company_size = sz,
      orders = [],
      profile.total_revenue = 0,
      overdue_count = 0\<rparr>"

definition add_order :: "SalesRecord \<Rightarrow> real \<Rightarrow> profile \<Rightarrow> profile" where
  "add_order r raw_revenue p =
     p\<lparr>orders := orders p @ [r],
       profile.total_revenue := profile.total_revenue p + raw_revenue,
       overdue_count := (if payment_status r = ''Overdue'' then overdue_count p + 1
                         else overdue_count p)\<rparr>"

definition build_profile ::
  "(string \<times> profile) list \<Rightarrow> SalesRecord \<Rightarrow> real \<Rightarrow> string \<Rightarrow> string \<Rightarrow> (string \<times> profile) list" where
  "build_profile profiles r raw_revenue ind sz =
     (let cid = SalesRecord.customer_id r;
          p = (case map_of profiles cid of None \<Rightarrow> new_profile r ind sz | Some q \<Rightarrow> q)
      in AList.update cid (add_order r raw_revenue p) profiles)"

section \<open>RiskScorer\<close>

text \<open>
  The body of the loop \<^verbatim>\<open># Process customer profiles and calculate risk scores\<close>, one
  definition for each local variable. The draw \<^verbatim>\<open>random.uniform(0, 30)\<close> is the argument
  \<open>volatility_factor\<close>, and \<^verbatim>\<open>datetime.now(timezone.utc)\<close> the argument \<open>now\<close>.
\<close>

definition overdue_ratio :: "int \<Rightarrow> nat \<Rightarrow> real" where
  "overdue_ratio overdue order_count =
     (if 0 < order_count then of_int overdue / of_nat order_count else 0)"

definition payment_history_score_of :: "real \<Rightarrow> real" where
  "payment_history_score_of ratio = max 0 (100 - ratio * 100)"

definition recency_factor :: "int \<Rightarrow> real" where
  "recency_factor days = min (of_int days / 365) 1 * 30"

definition payment_factor :: "real \<Rightarrow> real" where
  "payment_factor score = (100 - score) * 0.4"

definition risk_score_of :: "int \<Rightarrow> real \<Rightarrow> real \<Rightarrow> real" where
  "risk_score_of days score volatility_factor =
     recency_factor days + payment_factor score + volatility_factor"

definition categorize :: "real \<Rightarrow> string" where
  "categorize score =
     (if score < 30 then ''Low'' else if score < 60 then ''Medium'' else ''High'')"

text \<open>
  The unrounded values of one loop iteration: \<^verbatim>\<open>payment_history_score\<close>,
  \<^verbatim>\<open>last_order_date\<close>, \<^verbatim>\<open>days_since_last_order\<close>, \<^verbatim>\<open>risk_score\<close> and
  \<^verbatim>\<open>risk_category\<close>. \<^verbatim>\<open>max(order_dates)\<close> raises on a profile without orders.
\<close>

record scores =
  s_payment_history_score :: real
  s_last_order_date :: datetime
  s_days_since_last_order :: int
  s_risk_score :: real
  s_risk_category :: string

definition score_profile :: "datetime \<Rightarrow> profile \<Rightarrow> real \<Rightarrow> error + scores" where
  "score_profile now p volatility_factor =
     (let order_count = length (orders p);
          phs = payment_history_score_of (overdue_ratio (overdue_count p) order_count)
      in case max_datetime (map order_date (orders p)) of
           Inl e \<Rightarrow> Inl e
         | Inr last_date \<Rightarrow>
             (let days = timedelta_days now last_date;
                  rs = risk_score_of days phs volatility_factor
              in Inr \<lparr>s_payment_history_score = phs,
                      s_last_order_date = last_date,
                      s_days_since_last_order = days,
                      s_risk_score = rs,
                      s_risk_category = categorize rs\<rparr>))"

text \<open>The \<^verbatim>\<open>CustomerProfile\<close> of one iteration; \<open>uid\<close> is the generated identifier.\<close>

definition make_customer_profile ::
  "datetime \<Rightarrow> string \<Rightarrow> string \<Rightarrow> profile \<Rightarrow> real \<Rightarrow> error + CustomerProfile" where
  "make_customer_profile now uid cid p volatility_factor =
     (let order_count = length (orders p);
          avg = (if 0 < order_count then profile.total_revenue p / of_nat order_count else 0)
      in case score_profile now p volatility_factor of
           Inl e \<Rightarrow> Inl e
         | Inr s \<Rightarrow>
             Inr \<lparr>CustomerProfile.id = uid,
                  CustomerProfile.customer_id = cid,
                  CustomerProfile.customer_name = profile.customer_name p,
                  CustomerProfile.region = profile.region p,
                  CustomerProfile.country = profile.country p,
                  CustomerProfile.industry = profile.industry p,
                  CustomerProfile.company_size = profile.company_size p,
                  CustomerProfile.total_revenue = py_round (profile.total_revenue p) 2,
                  avg_deal_size = py_round avg 2,
                  payment_history_score = py_round (s_payment_history_score s) 1,
                  risk_score = py_round (s_risk_score s) 1,
                  risk_category = s_risk_category s,
                  last_order_date = Some (s_last_order_date s),
                  days_since_last_order = s_days_since_last_order s\<rparr>)"

section \<open>Derived outputs\<close>

text \<open>
  The response models. A dictionary with fixed keys of different types
  (\<^verbatim>\<open>{"name": ..., "revenue": ...}\<close>) is a record; \<^verbatim>\<open>confidence_interval\<close>, a dictionary from
  strings to floats, is an association list. \<^verbatim>\<open>countries\<close> is \<^verbatim>\<open>list(set(...))\<close>, whose
  order is that of a hash set: only its elements are modelled.
\<close>

record top_customer =
  name :: string
  revenue :: real

record top_region =
  region :: string
  revenue :: real

record RegionalSummary =
  region :: string
  total_revenue :: real
  total_orders :: nat
  avg_deal_size :: real
  risk_exposure :: real
  top_customers :: "top_customer list"
  countries :: "string set"

record KPIMetrics =
  total_revenue :: real
  total_orders :: nat
  avg_deal_size :: real
  revenue_growth :: real
  high_risk_customers :: nat
  overdue_payments :: real
  top_regions :: "top_region list"

record trend_data =
  revenue :: real
  orders :: nat

record trend =
  period :: string
  revenue :: real
  orders :: nat

record ForecastData =
  period :: string
  actual_revenue :: "real option"
  forecasted_revenue :: "real option"
  confidence_interval :: "(string \<times> real) list option"

section \<open>Sorting and dictionaries\<close>

text \<open>
  \<^verbatim>\<open>sorted(xs, key=f)\<close> is the stable sort \<^const>\<open>sort_key\<close>. With \<^verbatim>\<open>reverse=True\<close> Python
  reverses the list, sorts it stably and reverses the result, which keeps elements with
  equal keys in their original order.
\<close>

definition sorted_reverse :: "('a \<Rightarrow> real) \<Rightarrow> 'a list \<Rightarrow> 'a list" where
  "sorted_reverse f xs = rev (sort_key f (rev xs))"

text \<open>
  A Python dictionary is an association list in insertion order: \<^const>\<open>map_of\<close> reads a
  key, \<^const>\<open>AList.update\<close> overwrites a value in place or appends a new key.
  \<^verbatim>\<open>[d[k] for k in ks]\<close> raises \<^verbatim>\<open>KeyError\<close> on a missing key.
\<close>

fun lookup_all :: "('k \<times> 'v) list \<Rightarrow> 'k list \<Rightarrow> error + 'v list" where
  "lookup_all d [] = Inr []"
| "lookup_all d (k # ks) =
     (case map_of d k of
        None \<Rightarrow> Inl KeyError
      | Some v \<Rightarrow> (case lookup_all d ks of Inl e \<Rightarrow> Inl e | Inr vs \<Rightarrow> Inr (v # vs)))"

text \<open>\<^verbatim>\<open>xs.index(x)\<close> raises \<^verbatim>\<open>ValueError\<close> when \<open>x\<close> is absent; \<^verbatim>\<open>xs[i]\<close> raises
  \<^verbatim>\<open>IndexError\<close> out of range.\<close>

fun index_of :: "'a list \<Rightarrow> 'a \<Rightarrow> error + nat" where
  "index_of [] x = Inl ValueError"
| "index_of (y # ys) x =
     (if y = x then Inr 0
      else (case index_of ys x of Inl e \<Rightarrow> Inl e | Inr i \<Rightarrow> Inr (Suc i)))"

definition get_item :: "'a list \<Rightarrow> nat \<Rightarrow> error + 'a" where
  "get_item xs i = (if i < length xs then Inr (xs ! i) else Inl IndexError)"

section \<open>KPIEngine\<close>

text \<open>
  \<^verbatim>\<open>get_kpis\<close>. The two \<^verbatim>\<open>find\<close> queries are filters on \<^verbatim>\<open>order_date\<close>; the clock
  reading \<^verbatim>\<open>current_date\<close> is an argument.
\<close>

definition sum_revenue :: "SalesRecord list \<Rightarrow> real" where
  "sum_revenue rs = sum_list (map SalesRecord.revenue rs)"

definition add_region_revenue :: "(string \<times> real) list \<Rightarrow> SalesRecord \<Rightarrow> (string \<times> real) list" where
  "add_region_revenue region_revenue r =
     (let reg = SalesRecord.region r;
          old = (case map_of region_revenue reg of None \<Rightarrow> 0 | Some v \<Rightarrow> v)
      in AList.update reg (old + SalesRecord.revenue r) region_revenue)"

text \<open>
  \<^verbatim>\<open>a / b\<close> on floats raises \<^verbatim>\<open>ZeroDivisionError\<close> when \<open>b\<close> is zero. The two
  divisions of the KPI engine are written with this fallible division, so that a missing
  guard would show as an error value. The other operations divide by a variable only under
  the same kind of guard (\<^verbatim>\<open>... if n > 0 else 0\<close>) and are written with the plain division
  of \<^typ>\<open>real\<close> under that guard.
\<close>

definition py_truediv :: "real \<Rightarrow> real \<Rightarrow> error + real" where
  "py_truediv a b = (if b = 0 then Inl ZeroDivisionError else Inr (a / b))"

definition growth_of :: "real \<Rightarrow> real \<Rightarrow> error + real" where
  "growth_of current_revenue previous_revenue =
     (if 0 < previous_revenue
      then (case py_truediv (current_revenue - previous_revenue) previous_revenue of
              Inl e \<Rightarrow> Inl e
            | Inr q \<Rightarrow> Inr (q * 100))
      else Inr 0)"

definition current_sales_of :: "db \<Rightarrow> datetime \<Rightarrow> SalesRecord list" where
  "current_sales_of d current_period_start =
     filter (\<lambda>r. to_micros current_period_start \<le> to_micros (order_date r)) (sales_records d)"

definition previous_sales_of :: "db \<Rightarrow> datetime \<Rightarrow> datetime \<Rightarrow> SalesRecord list" where
  "previous_sales_of d previous_period_start previous_period_end =
     filter (\<lambda>r. to_micros previous_period_start \<le> to_micros (order_date r)
                \<and> to_micros (order_date r) < to_micros previous_period_end) (sales_records d)"

definition get_kpis :: "db \<Rightarrow> datetime \<Rightarrow> error + KPIMetrics" where
  "get_kpis d current_date =
     (case add_days current_date (- 30) of
        Inl e \<Rightarrow> Inl e
      | Inr current_period_start \<Rightarrow>
     (case add_days current_date (- 60) of
        Inl e \<Rightarrow> Inl e
      | Inr previous_period_start \<Rightarrow>
     (case add_days current_date (- 30) of
        Inl e \<Rightarrow> Inl e
      | Inr previous_period_end \<Rightarrow>
          (let current_sales = current_sales_of d current_period_start;
               previous_sales = previous_sales_of d previous_period_start previous_period_end;
               current_revenue = sum_revenue current_sales;
               previous_revenue = sum_revenue previous_sales
           in case growth_of current_revenue previous_revenue of
                Inl e \<Rightarrow> Inl e
              | Inr growth \<Rightarrow>
                  (let n = length current_sales
                   in case (if 0 < n then py_truediv current_revenue (of_nat n) else Inr 0) of
                        Inl e \<Rightarrow> Inl e
                      | Inr avg \<Rightarrow>
                          (let high_risk = length (filter (\<lambda>c. risk_category c = ''High'')
                                                     (customer_profiles d));
                               overdue_records = filter (\<lambda>r. payment_status r = ''Overdue'')
                                                   (sales_records d);
                               overdue = sum_revenue overdue_records;
                               region_revenue = foldl add_region_revenue [] current_sales
                           in Inr \<lparr>KPIMetrics.total_revenue = py_round current_revenue 2,
                                   KPIMetrics.total_orders = n,
                                   KPIMetrics.avg_deal_size = py_round avg 2,
                                   revenue_growth = py_round growth 1,
                                   high_risk_customers = high_risk,
                                   overdue_payments = py_round overdue 2,
                                   top_regions =
                                     map (\<lambda>(reg, amount). \<lparr>top_region.region = reg,
                                                            top_region.revenue = amount\<rparr>)
                                       (sorted_reverse snd region_revenue)\<rparr>))))))"

section \<open>DimensionalRollup\<close>

definition regions :: "string list" where
  "regions = [''APAC'', ''EMEA'', ''Americas'']"

definition add_customer_revenue ::
  "(string \<times> top_customer) list \<Rightarrow> SalesRecord \<Rightarrow> (string \<times> top_customer) list" where
  "add_customer_revenue customer_revenue r =
     (let cid = SalesRecord.customer_id r;
          e = (case map_of customer_revenue cid of
                 None \<Rightarrow> \<lparr>name = SalesRecord.customer_name r, top_customer.revenue = 0\<rparr>
               | Some e' \<Rightarrow> e')
      in AList.update cid (e\<lparr>top_customer.revenue := top_customer.revenue e + SalesRecord.revenue r\<rparr>)
           customer_revenue)"

text \<open>The dictionary \<^verbatim>\<open>customer_revenue\<close> after the loop over \<^verbatim>\<open>sales_data\<close>.\<close>

definition customer_revenue_of :: "SalesRecord list \<Rightarrow> (string \<times> top_customer) list" where
  "customer_revenue_of sales_data = foldl add_customer_revenue [] sales_data"

definition top_customers_of :: "SalesRecord list \<Rightarrow> top_customer list" where
  "top_customers_of sales_data =
     take 5 (sorted_reverse top_customer.revenue (map snd (customer_revenue_of sales_data)))"

text \<open>The body of the loop of \<^verbatim>\<open>get_regional_summary\<close> for a region that has sales.\<close>

definition summarize_region ::
  "string \<Rightarrow> SalesRecord list \<Rightarrow> CustomerProfile list \<Rightarrow> RegionalSummary" where
  "summarize_region reg sales_data customer_data =
     (let total = sum_revenue sales_data;
          n = length sales_data;
          avg = (if 0 < n then total / of_nat n else 0);
          high_risk_customer_ids =
            map CustomerProfile.customer_id
              (filter (\<lambda>c. risk_category c = ''High'') customer_data);
          exposure = sum_revenue
            (filter (\<lambda>r. SalesRecord.customer_id r \<in> set high_risk_customer_ids) sales_data)
      in \<lparr>RegionalSummary.region = reg,
          RegionalSummary.total_revenue = py_round total 2,
          RegionalSummary.total_orders = n,
          RegionalSummary.avg_deal_size = py_round avg 2,
          risk_exposure = py_round exposure 2,
          top_customers = top_customers_of sales_data,
          countries = set (map SalesRecord.country sales_data)\<rparr>)"

fun summary_loop :: "db \<Rightarrow> string list \<Rightarrow> RegionalSummary list \<Rightarrow> RegionalSummary list" where
  "summary_loop d [] regional_summaries = regional_summaries"
| "summary_loop d (reg # rest) regional_summaries =
     (let sales_data = filter (\<lambda>r. SalesRecord.region r = reg) (sales_records d);
          customer_data = filter (\<lambda>c. CustomerProfile.region c = reg) (customer_profiles d)
      in if sales_data = [] then summary_loop d rest regional_summaries
         else summary_loop d rest
                (regional_summaries @ [summarize_region reg sales_data customer_data]))"

definition get_regional_summary :: "db \<Rightarrow> RegionalSummary list" where
  "get_regional_summary d = summary_loop d regions []"

section \<open>PeriodAggregator\<close>

text \<open>
  \<^verbatim>\<open>get_sales_trends\<close>. The stored \<^verbatim>\<open>order_date\<close> is a \<^verbatim>\<open>datetime\<close>, the first branch
  of the \<^verbatim>\<open>isinstance\<close> test. The optional \<^verbatim>\<open>region\<close> filters only when it is a
  non-empty string (\<^verbatim>\<open>if region:\<close>). The parameter \<^verbatim>\<open>period\<close> is \<open>p\<close>.
\<close>

definition period_key :: "string \<Rightarrow> datetime \<Rightarrow> string" where
  "period_key p t =
     (if p = ''monthly'' then strftime_Ym t
      else if p = ''quarterly''
      then (let quarter = (month t - 1) div 3 + 1 in str_int (year t) @ ''-Q'' @ str_int quarter)
      else str_int (year t))"

definition add_trend :: "string \<Rightarrow> (string \<times> trend_data) list \<Rightarrow> SalesRecord \<Rightarrow> (string \<times> trend_data) list" where
  "add_trend p trends r =
     (let k = period_key p (order_date r);
          e = (case map_of trends k of
                 None \<Rightarrow> \<lparr>trend_data.revenue = 0, trend_data.orders = 0\<rparr>
               | Some e' \<Rightarrow> e')
      in AList.update k \<lparr>trend_data.revenue = trend_data.revenue e + SalesRecord.revenue r,
                         trend_data.orders = trend_data.orders e + 1\<rparr> trends)"

definition find_sales :: "db \<Rightarrow> string option \<Rightarrow> SalesRecord list" where
  "find_sales d reg =
     (case reg of
        None \<Rightarrow> sales_records d
      | Some r \<Rightarrow> if r = [] then sales_records d
                  else filter (\<lambda>x. SalesRecord.region x = r) (sales_records d))"

definition get_sales_trends :: "string \<Rightarrow> string option \<Rightarrow> db \<Rightarrow> trend list" where
  "get_sales_trends p reg d =
     (let sales_data = find_sales d reg
      in if sales_data = [] then []
         else
           (let trends = foldl (add_trend p) [] sales_data;
                trend_list = map (\<lambda>(k, e). \<lparr>trend.period = k,
                                              trend.revenue = trend_data.revenue e,
                                              trend.orders = trend_data.orders e\<rparr>) trends
            in sort_key trend.period trend_list))"

section \<open>ForecastEngine\<close>

text \<open>
  \<^verbatim>\<open>np.polyfit(x, y, 1)\<close>: the coefficients (slope, intercept) of the least-squares line
  through the points, in closed form.
\<close>

definition polyfit1 :: "real list \<Rightarrow> real list \<Rightarrow> real \<times> real" where
  "polyfit1 xs ys =
     (let n = of_nat (length xs);
          sx = sum_list xs; sy = sum_list ys;
          sxx = sum_list (map (\<lambda>x. x * x) xs);
          sxy = sum_list (map (\<lambda>(x, y). x * y) (zip xs ys));
          slope = (n * sxy - sx * sy) / (n * sxx - sx * sx);
          intercept = (sy - slope * sx) / n
      in (slope, intercept))"

definition add_month :: "(string \<times> real) list \<Rightarrow> SalesRecord \<Rightarrow> (string \<times> real) list" where
  "add_month monthly_data r =
     (let month_key = strftime_Ym (order_date r);
          old = (case map_of monthly_data month_key of None \<Rightarrow> 0 | Some v \<Rightarrow> v)
      in AList.update month_key (old + SalesRecord.revenue r) monthly_data)"

text \<open>The loop \<^verbatim>\<open># Add historical data\<close> over \<^verbatim>\<open>sorted_months[-6:]\<close>.\<close>

fun historical_points :: "string list \<Rightarrow> real list \<Rightarrow> string list \<Rightarrow> error + ForecastData list" where
  "historical_points sorted_months revenues [] = Inr []"
| "historical_points sorted_months revenues (m # ms) =
     (case index_of sorted_months m of
        Inl e \<Rightarrow> Inl e
      | Inr j \<Rightarrow>
     (case get_item revenues j of
        Inl e \<Rightarrow> Inl e
      | Inr v \<Rightarrow>
     (case historical_points sorted_months revenues ms of
        Inl e \<Rightarrow> Inl e
      | Inr ps \<Rightarrow>
          Inr (\<lparr>ForecastData.period = m, actual_revenue = Some v,
                forecasted_revenue = None, confidence_interval = None\<rparr> # ps))))"

text \<open>One iteration of the loop \<^verbatim>\<open># Add forecasted data\<close>, and the loop over \<^verbatim>\<open>range(1, months + 1)\<close>.\<close>

definition forecasted_value_of :: "real \<Rightarrow> real \<Rightarrow> int \<Rightarrow> int \<Rightarrow> real" where
  "forecasted_value_of trend_slope trend_intercept last_index i =
     trend_slope * of_int (last_index + i) + trend_intercept"

definition future_point :: "string \<Rightarrow> real \<Rightarrow> ForecastData" where
  "future_point forecast_month forecasted_value =
     (let confidence_lower = forecasted_value * 0.8;
          confidence_upper = forecasted_value * 1.2
      in \<lparr>ForecastData.period = forecast_month, actual_revenue = None,
          forecasted_revenue = Some (py_round forecasted_value 2),
          confidence_interval = Some [(''lower'', py_round confidence_lower 2),
                                      (''upper'', py_round confidence_upper 2)]\<rparr>)"

fun future_points :: "datetime \<Rightarrow> real \<Rightarrow> real \<Rightarrow> int \<Rightarrow> int list \<Rightarrow> error + ForecastData list" where
  "future_points current_date trend_slope trend_intercept last_index [] = Inr []"
| "future_points current_date trend_slope trend_intercept last_index (i # rest) =
     (case add_days current_date (30 * i) of
        Inl e \<Rightarrow> Inl e
      | Inr t \<Rightarrow>
     (case future_points current_date trend_slope trend_intercept last_index rest of
        Inl e \<Rightarrow> Inl e
      | Inr ps \<Rightarrow>
          Inr (future_point (strftime_Ym t)
                 (forecasted_value_of trend_slope trend_intercept last_index i) # ps)))"

text \<open>The dictionary \<^verbatim>\<open>monthly_data\<close> after the aggregation loop, and the records of the lookback window.\<close>

definition monthly_data_of :: "SalesRecord list \<Rightarrow> (string \<times> real) list" where
  "monthly_data_of sales_data = foldl add_month [] sales_data"

definition forecast_sales_of :: "db \<Rightarrow> datetime \<Rightarrow> SalesRecord list" where
  "forecast_sales_of d start_date =
     filter (\<lambda>r. to_micros start_date \<le> to_micros (order_date r)) (sales_records d)"

definition get_sales_forecast :: "db \<Rightarrow> datetime \<Rightarrow> int \<Rightarrow> error + ForecastData list" where
  "get_sales_forecast d current_date months =
     (case add_days current_date (- 365) of
        Inl e \<Rightarrow> Inl e
      | Inr start_date \<Rightarrow>
          (let sales_data = forecast_sales_of d start_date
           in if sales_data = [] then Inr []
              else
                (let monthly_data = monthly_data_of sales_data;
                     sorted_months = sort (map fst monthly_data)
                 in case lookup_all monthly_data sorted_months of
                      Inl e \<Rightarrow> Inl e
                    | Inr revenues \<Rightarrow>
                        if length revenues < 3 then Inr []
                        else
                          (let x = map of_nat [0 ..< length revenues];
                               coeffs = polyfit1 x revenues;
                               trend_slope = fst coeffs;
                               trend_intercept = snd coeffs
                           in case historical_points sorted_months revenues
                                     (drop (length sorted_months - 6) sorted_months) of
                                Inl e \<Rightarrow> Inl e
                              | Inr hist \<Rightarrow>
                                  (let last_index = int (length revenues) - 1
                                   in case future_points current_date trend_slope trend_intercept
                                             last_index [1 .. months] of
                                        Inl e \<Rightarrow> Inl e
                                      | Inr fut \<Rightarrow> Inr (hist @ fut))))))"

text \<open>The list \<^verbatim>\<open>revenues\<close> of \<^verbatim>\<open>get_sales_forecast\<close>, as a function of the records in the window.\<close>

definition monthly_revenues :: "SalesRecord list \<Rightarrow> error + real list" where
  "monthly_revenues sales_data =
     (let monthly_data = monthly_data_of sales_data
      in lookup_all monthly_data (sort (map fst monthly_data)))"

text \<open>
  The elements of a list in the order of their first occurrence: the order in which a
  loop over the list inserts them as keys into a dictionary.
\<close>

definition first_seen :: "'a list \<Rightarrow> 'a list" where
  "first_seen xs = rev (remdups (rev xs))"

section \<open>Sample data\<close>

text \<open>Concrete dates, records and profiles on which the theorems below are instantiated.\<close>

definition sample_date :: "int \<Rightarrow> int \<Rightarrow> int \<Rightarrow> datetime" where
  "sample_date y m d =
     \<lparr>year = y, month = m, day = d, hour = 0, minute = 0, second = 0, microsecond = 0\<rparr>"

definition sample_record :: "string \<Rightarrow> string \<Rightarrow> datetime \<Rightarrow> real \<Rightarrow> string \<Rightarrow> SalesRecord" where
  "sample_record reg cid t v st =
     \<lparr>SalesRecord.id = ''id-'' @ cid, SalesRecord.region = reg, SalesRecord.country = ''Japan'',
      SalesRecord.customer_id = cid, SalesRecord.customer_name = ''Global Corp'',
      product_category = ''Software'', product_name = ''CRM Suite'', sales_rep = ''Emma Smith'',
      order_date = t, SalesRecord.revenue = v, quantity = 1, deal_size = v, currency = ''JPY'',
      payment_status = st, payment_due_date = t, days_overdue = 0\<rparr>"

definition sample_profile :: "SalesRecord list \<Rightarrow> int \<Rightarrow> profile" where
  "sample_profile os k =
     \<lparr>profile.customer_id = ''CUST_APAC_1000'', profile.customer_name = ''Global Corp'',
      profile.region = ''APAC'', profile.country = ''Japan'', industry = ''Retail'',
      company_size = ''SMB'', profile.orders = os, profile.total_revenue = sum_revenue os,
      overdue_count = k\<rparr>"

text \<open>One overdue order, placed 517 days before the evaluation date 2024-06-01.\<close>

definition p_max :: profile where
  "p_max = sample_profile
     [sample_record ''APAC'' ''CUST_APAC_1000'' (sample_date 2023 1 1) 100 ''Overdue''] 1"

text \<open>Two orders with the same dates, none overdue and one overdue.\<close>

definition p_paid :: profile where
  "p_paid = sample_profile
     [sample_record ''APAC'' ''CUST_APAC_1000'' (sample_date 2024 3 1) 100 ''Paid'',
      sample_record ''APAC'' ''CUST_APAC_1000'' (sample_date 2024 5 1) 250 ''Paid''] 0"

definition p_late :: profile where
  "p_late = sample_profile
     [sample_record ''APAC'' ''CUST_APAC_1000'' (sample_date 2024 3 1) 100 ''Paid'',
      sample_record ''APAC'' ''CUST_APAC_1000'' (sample_date 2024 5 1) 250 ''Overdue''] 1"

text \<open>Ledgers: two regions only; all three regions; revenues with a third decimal.\<close>

definition db_two_regions :: db where
  "db_two_regions =
     \<lparr>sales_records =
        [sample_record ''APAC'' ''CUST_APAC_1000'' (sample_date 2024 3 1) 100.5 ''Paid'',
         sample_record ''EMEA'' ''CUST_EMEA_2000'' (sample_date 2024 4 1) 200.25 ''Paid'',
         sample_record ''APAC'' ''CUST_APAC_1001'' (sample_date 2024 5 1) 300 ''Overdue''],
      customer_profiles = []\<rparr>"

definition db_three_regions :: db where
  "db_three_regions =
     \<lparr>sales_records =
        [sample_record ''APAC'' ''CUST_APAC_1000'' (sample_date 2024 3 1) 100.5 ''Paid'',
         sample_record ''EMEA'' ''CUST_EMEA_2000'' (sample_date 2024 4 1) 200.25 ''Paid'',
         sample_record ''Americas'' ''CUST_Americas_3000'' (sample_date 2024 4 9) 50.75 ''Pending'',
         sample_record ''APAC'' ''CUST_APAC_1001'' (sample_date 2024 5 1) 300 ''Overdue''],
      customer_profiles = []\<rparr>"

definition db_fractions :: db where
  "db_fractions =
     \<lparr>sales_records =
        [sample_record ''APAC'' ''CUST_APAC_1000'' (sample_date 2024 3 1) 1000.004 ''Paid'',
         sample_record ''EMEA'' ''CUST_EMEA_2000'' (sample_date 2024 4 1) 1000.004 ''Paid'',
         sample_record ''Americas'' ''CUST_Americas_3000'' (sample_date 2024 4 9) 1000.004 ''Paid''],
      customer_profiles = []\<rparr>"

text \<open>A ledger for the KPI windows: one order in each of the two 30-day windows before 2024-06-01.\<close>

definition db_kpi :: db where
  "db_kpi =
     \<lparr>sales_records =
        [sample_record ''APAC'' ''CUST_APAC_1000'' (sample_date 2024 4 20) 300 ''Paid'',
         sample_record ''EMEA'' ''CUST_EMEA_2000'' (sample_date 2024 5 10) 100 ''Paid''],
      customer_profiles = []\<rparr>"

text \<open>
  Ledgers for the forecast: monthly revenues 100, 200, 300 (two orders in February), and
  monthly revenues 0.03, 0.02, 0.01.
\<close>

definition db_growth :: db where
  "db_growth =
     \<lparr>sales_records =
        [sample_record ''APAC'' ''CUST_APAC_1000'' (sample_date 2024 2 15) 150 ''Paid'',
         sample_record ''EMEA'' ''CUST_EMEA_2000'' (sample_date 2024 1 15) 100 ''Paid'',
         sample_record ''APAC'' ''CUST_APAC_1001'' (sample_date 2024 3 15) 300 ''Paid'',
         sample_record ''EMEA'' ''CUST_EMEA_2000'' (sample_date 2024 2 20) 50 ''Paid''],
      customer_profiles = []\<rparr>"

definition db_decline :: db where
  "db_decline =
     \<lparr>sales_records =
        [sample_record ''APAC'' ''CUST_APAC_1000'' (sample_date 2024 1 15) 0.03 ''Paid'',
         sample_record ''EMEA'' ''CUST_EMEA_2000'' (sample_date 2024 2 15) 0.02 ''Paid'',
         sample_record ''APAC'' ''CUST_APAC_1001'' (sample_date 2024 3 15) 0.01 ''Paid''],
      customer_profiles = []\<rparr>"



text \<open>A ledger with orders in two calendar years.\<close>

definition db_years :: db where
  "db_years =
     \<lparr>sales_records =
        [sample_record ''APAC'' ''CUST_APAC_1000'' (sample_date 2024 2 15) 300 ''Paid'',
         sample_record ''EMEA'' ''CUST_EMEA_2000'' (sample_date 2023 11 5) 100 ''Paid'',
         sample_record ''APAC'' ''CUST_APAC_1001'' (sample_date 2023 3 15) 250 ''Paid''],
      customer_profiles = []\<rparr>"

section \<open>Properties of the RiskScorer\<close>

lemmas date_defs = toordinal_def ymd2ord_def days_before_year_def days_before_month_def
  DAYS_BEFORE_MONTH_def DAYS_IN_MONTH_def is_leap_def to_micros_def timedelta_days_def
  sample_date_def

lemma recency_factor_le: "recency_factor d \<le> 30"
  unfolding recency_factor_def by (simp add: min_def)

lemma payment_factor_le: "payment_factor (payment_history_score_of r) \<le> 40"
  unfolding payment_factor_def payment_history_score_of_def by (simp add: max_def)

lemma risk_score_of_le:
  "v \<le> 30 \<Longrightarrow> risk_score_of d (payment_history_score_of r) v \<le> 100"
  using recency_factor_le [of d] payment_factor_le [of r]
  unfolding risk_score_of_def by linarith

text \<open>A profile with at least one order is scored, and these are the values.\<close>

lemma score_profile_returns:
  assumes "profile.orders p \<noteq> []"
  shows "score_profile now p v =
    Inr \<lparr>s_payment_history_score =
            payment_history_score_of (overdue_ratio (overdue_count p) (length (profile.orders p))),
          s_last_order_date =
            max_from (order_date (hd (profile.orders p))) (map order_date (tl (profile.orders p))),
          s_days_since_last_order =
            timedelta_days now
              (max_from (order_date (hd (profile.orders p))) (map order_date (tl (profile.orders p)))),
          s_risk_score = risk_score_of
            (timedelta_days now
              (max_from (order_date (hd (profile.orders p))) (map order_date (tl (profile.orders p)))))
            (payment_history_score_of (overdue_ratio (overdue_count p) (length (profile.orders p)))) v,
          s_risk_category = categorize (risk_score_of
            (timedelta_days now
              (max_from (order_date (hd (profile.orders p))) (map order_date (tl (profile.orders p)))))
            (payment_history_score_of (overdue_ratio (overdue_count p) (length (profile.orders p)))) v)\<rparr>"
  using assms by (cases "profile.orders p") (simp_all add: score_profile_def max_datetime_def Let_def)

lemma score_profile_orders: "score_profile now p v = Inr s \<Longrightarrow> profile.orders p \<noteq> []"
  by (auto simp: score_profile_def max_datetime_def Let_def)

text \<open>
  The accumulation of the generation loop keeps \<open>overdue_count\<close> equal to the number of
  overdue orders, so the overdue ratio of a generated profile lies in \<open>[0, 1]\<close>.
\<close>

lemma add_order_overdue_count:
  "overdue_count p = int (length (filter (\<lambda>r. payment_status r = ''Overdue'') (profile.orders p)))
   \<Longrightarrow> overdue_count (add_order r raw p)
       = int (length (filter (\<lambda>r. payment_status r = ''Overdue'') (profile.orders (add_order r raw p))))"
  by (simp add: add_order_def)

text \<open>
  Claim C2 (as amended). The claim says that some order history, evaluation time and
  volatility draw in \<open>[0, 30]\<close> give a risk score above 100. The code never does: the
  recency factor is at most 30, the payment factor at most 40 (the payment history score
  is at least 0) and the draw at most 30, so the unclamped sum is at most 100 for every
  scored profile. The bound is reached, see \<open>risk_score_reaches_100\<close>.
\<close>

theorem risk_score_bounded:
  assumes "profile.orders p \<noteq> []" and "v \<le> 30"
  shows "\<exists>s. score_profile now p v = Inr s \<and> s_risk_score s \<le> 100"
  using assms by (simp add: score_profile_returns risk_score_of_le)

theorem risk_score_bounded_witness:
  "profile.orders p_max \<noteq> [] \<and> (30::real) \<le> 30
   \<and> (\<exists>s. score_profile (sample_date 2024 6 1) p_max 30 = Inr s \<and> s_risk_score s \<le> 100)"
  using risk_score_bounded [of p_max 30 "sample_date 2024 6 1"]
  by (simp add: p_max_def sample_profile_def)

lemma risk_score_reaches_100:
  "\<exists>s. score_profile (sample_date 2024 6 1) p_max 30 = Inr s \<and> s_risk_score s = 100"
  by (simp add: score_profile_returns p_max_def sample_profile_def sample_record_def
      risk_score_of_def recency_factor_def payment_factor_def payment_history_score_of_def
      overdue_ratio_def date_defs)

text \<open>Claim C2 as stated is false: no scored profile has a risk score above 100.\<close>

theorem no_risk_score_above_100:
  "\<not> (\<exists>now p v s. 0 \<le> v \<and> v \<le> 30 \<and> score_profile now p v = Inr s \<and> 100 < s_risk_score s)"
proof
  assume "\<exists>now p v s. 0 \<le> v \<and> v \<le> 30 \<and> score_profile now p v = Inr s \<and> 100 < s_risk_score s"
  then obtain now p v s where v: "v \<le> 30" and s: "score_profile now p v = Inr s"
    and big: "100 < s_risk_score s" by blast
  from s have ne: "profile.orders p \<noteq> []" by (rule score_profile_orders)
  from s obtain d r where "s_risk_score s = risk_score_of d (payment_history_score_of r) v"
    by (auto simp: score_profile_returns [OF ne])
  with big risk_score_of_le [OF v, of d r] show False by simp
qed

text \<open>
  Claim C3. For every customer with at least one order, the stored \<open>risk_category\<close> is
  \<open>Low\<close> exactly when the unrounded risk score is below 30, \<open>Medium\<close> exactly when it is in
  \<open>[30, 60)\<close>, and \<open>High\<close> exactly when it is at least 60.
\<close>

theorem risk_category_thresholds:
  assumes "profile.orders p \<noteq> []"
  shows "\<exists>s c. score_profile now p v = Inr s \<and> make_customer_profile now uid cid p v = Inr c
     \<and> risk_category c = s_risk_category s
     \<and> (risk_category c = ''Low'' \<longleftrightarrow> s_risk_score s < 30)
     \<and> (risk_category c = ''Medium'' \<longleftrightarrow> 30 \<le> s_risk_score s \<and> s_risk_score s < 60)
     \<and> (risk_category c = ''High'' \<longleftrightarrow> 60 \<le> s_risk_score s)"
  using assms
  by (simp add: make_customer_profile_def score_profile_returns categorize_def Let_def)

theorem risk_category_thresholds_witness:
  "profile.orders p_late \<noteq> []
   \<and> (\<exists>s c. score_profile (sample_date 2024 6 1) p_late 12.5 = Inr s
     \<and> make_customer_profile (sample_date 2024 6 1) ''uid-1'' ''CUST_APAC_1000'' p_late 12.5 = Inr c
     \<and> risk_category c = s_risk_category s
     \<and> (risk_category c = ''Low'' \<longleftrightarrow> s_risk_score s < 30)
     \<and> (risk_category c = ''Medium'' \<longleftrightarrow> 30 \<le> s_risk_score s \<and> s_risk_score s < 60)
     \<and> (risk_category c = ''High'' \<longleftrightarrow> 60 \<le> s_risk_score s))"
  using risk_category_thresholds
    [of p_late "sample_date 2024 6 1" "12.5" "''uid-1''" "''CUST_APAC_1000''"]
  by (simp add: p_late_def sample_profile_def)

text \<open>
  Claim C6. With the evaluation time, the volatility draw and the order dates (hence the
  order count) fixed, a strictly larger overdue ratio, not above 1, gives a strictly smaller
  (unrounded) payment history score and a strictly larger (unrounded) risk score.
\<close>

theorem overdue_ratio_monotone:
  assumes "profile.orders p \<noteq> []"
    and "map order_date (profile.orders p') = map order_date (profile.orders p)"
    and "overdue_ratio (overdue_count p) (length (profile.orders p))
          < overdue_ratio (overdue_count p') (length (profile.orders p'))"
    and "overdue_ratio (overdue_count p') (length (profile.orders p')) \<le> 1"
  shows "\<exists>s s'. score_profile now p v = Inr s \<and> score_profile now p' v = Inr s'
     \<and> s_payment_history_score s' < s_payment_history_score s
     \<and> s_risk_score s < s_risk_score s'"
proof -
  from assms(1,2) have ne': "profile.orders p' \<noteq> []" by (metis map_is_Nil_conv)
  have same: "max_from (order_date (hd (profile.orders p'))) (map order_date (tl (profile.orders p')))
      = max_from (order_date (hd (profile.orders p))) (map order_date (tl (profile.orders p)))"
    using assms(1,2) ne' by (metis hd_map map_tl)
  show ?thesis
    using assms(3,4)
    by (simp add: score_profile_returns [OF assms(1)] score_profile_returns [OF ne'] same
        risk_score_of_def payment_factor_def payment_history_score_of_def max_def)
qed

theorem overdue_ratio_monotone_witness:
  "profile.orders p_paid \<noteq> []
   \<and> map order_date (profile.orders p_late) = map order_date (profile.orders p_paid)
   \<and> overdue_ratio (overdue_count p_paid) (length (profile.orders p_paid))
       < overdue_ratio (overdue_count p_late) (length (profile.orders p_late))
   \<and> overdue_ratio (overdue_count p_late) (length (profile.orders p_late)) \<le> 1
   \<and> (\<exists>s s'. score_profile (sample_date 2024 6 1) p_paid 12.5 = Inr s
        \<and> score_profile (sample_date 2024 6 1) p_late 12.5 = Inr s'
        \<and> s_payment_history_score s' < s_payment_history_score s
        \<and> s_risk_score s < s_risk_score s')"
  using overdue_ratio_monotone [of p_paid p_late "sample_date 2024 6 1" "12.5"]
  by (simp add: p_paid_def p_late_def sample_profile_def sample_record_def overdue_ratio_def)

section \<open>Properties of rounding\<close>

lemma round_half_even_of_int: "round_half_even (of_int n) = n"
  by (simp add: round_half_even_def)

lemma round_half_even_error: "\<bar>of_int (round_half_even s) - s\<bar> \<le> 1 / 2"
  unfolding round_half_even_def Let_def by (auto simp: abs_if) linarith+

lemma round_half_even_lower: "\<lfloor>s\<rfloor> \<le> round_half_even s"
  unfolding round_half_even_def Let_def by auto

lemma round_half_even_upper: "round_half_even s \<le> \<lfloor>s\<rfloor> + 1"
  unfolding round_half_even_def Let_def by auto

lemma round_half_even_mono:
  assumes "s \<le> t" shows "round_half_even s \<le> round_half_even t"
proof (cases "\<lfloor>s\<rfloor> < \<lfloor>t\<rfloor>")
  case True
  then show ?thesis
    using round_half_even_upper [of s] round_half_even_lower [of t] by linarith
next
  case False
  with assms have eq: "\<lfloor>s\<rfloor> = \<lfloor>t\<rfloor>" using floor_mono [of s t] by linarith
  with assms show ?thesis
    unfolding round_half_even_def Let_def by auto
qed

lemma py_round_mono: "x \<le> y \<Longrightarrow> py_round x k \<le> py_round y k"
  unfolding py_round_def
  by (intro divide_right_mono) (auto intro!: round_half_even_mono mult_right_mono)

lemma py_round_exact:
  assumes "x * 10 ^ k \<in> \<int>" shows "py_round x k = x"
proof -
  from assms obtain n :: int where n: "x * 10 ^ k = of_int n" by (auto elim: Ints_cases)
  have "py_round x k = of_int n / 10 ^ k"
    by (simp add: py_round_def n round_half_even_of_int)
  also have "\<dots> = x" using n [symmetric] by simp
  finally show ?thesis .
qed

lemma py_round_zero: "py_round 0 k = 0"
  using py_round_exact [of 0 k] by simp

lemma py_round_error2: "\<bar>py_round x 2 - x\<bar> \<le> 0.005"
proof -
  have "\<bar>of_int (round_half_even (x * 100)) - x * 100\<bar> \<le> 1 / 2"
    by (rule round_half_even_error)
  then show ?thesis unfolding py_round_def by (simp add: abs_if field_simps split: if_splits)
qed

section \<open>Properties of the regional summary\<close>

lemma summary_loop_eq:
  "summary_loop d rs acc =
     acc @ map (\<lambda>reg. summarize_region reg
                        (filter (\<lambda>r. SalesRecord.region r = reg) (sales_records d))
                        (filter (\<lambda>c. CustomerProfile.region c = reg) (customer_profiles d)))
             (filter (\<lambda>reg. filter (\<lambda>r. SalesRecord.region r = reg) (sales_records d) \<noteq> []) rs)"
  by (induction rs arbitrary: acc) (simp_all add: Let_def)

lemma summarize_region_region [simp]:
  "RegionalSummary.region (summarize_region reg sd cd) = reg"
  by (simp add: summarize_region_def Let_def)

lemma summarize_region_total [simp]:
  "RegionalSummary.total_revenue (summarize_region reg sd cd) = py_round (sum_revenue sd) 2"
  by (simp add: summarize_region_def Let_def)

lemma filter_region_nonempty:
  "(filter (\<lambda>r. SalesRecord.region r = reg) rs \<noteq> []) = (reg \<in> SalesRecord.region ` set rs)"
  by (auto simp: filter_empty_conv)

lemma summary_regions:
  "map RegionalSummary.region (get_regional_summary d)
     = filter (\<lambda>reg. reg \<in> SalesRecord.region ` set (sales_records d)) regions"
  by (simp add: get_regional_summary_def summary_loop_eq filter_region_nonempty o_def)

text \<open>
  Claim C9 (as amended). The operation returns one summary for each region of the fixed
  list APAC, EMEA, Americas that has at least one sales record, in that order: a region
  without records is skipped. The list has at most 3 entries, and exactly 3 only when every
  region has a record.
\<close>

theorem regional_summary_regions:
  "map RegionalSummary.region (get_regional_summary d)
     = filter (\<lambda>reg. reg \<in> SalesRecord.region ` set (sales_records d)) regions
   \<and> length (get_regional_summary d) \<le> 3
   \<and> (length (get_regional_summary d) = 3
        \<longleftrightarrow> set regions \<subseteq> SalesRecord.region ` set (sales_records d))"
proof -
  have l: "length (get_regional_summary d)
     = length (filter (\<lambda>reg. reg \<in> SalesRecord.region ` set (sales_records d)) regions)"
    using arg_cong [OF summary_regions, of length d] by simp
  have l3: "length regions = 3" by (simp add: regions_def)
  have le: "length (get_regional_summary d) \<le> 3"
    unfolding l using length_filter_le [of _ regions] l3 by simp
  have "length (get_regional_summary d) = 3
      \<longleftrightarrow> set regions \<subseteq> SalesRecord.region ` set (sales_records d)"
    unfolding l by (auto simp: regions_def)
  with summary_regions le show ?thesis by blast
qed

theorem regional_summary_regions_witness:
  "map RegionalSummary.region (get_regional_summary db_three_regions)
     = [''APAC'', ''EMEA'', ''Americas'']
   \<and> length (get_regional_summary db_three_regions) = 3"
  using regional_summary_regions [of db_three_regions]
  by (simp add: db_three_regions_def sample_record_def regions_def)

text \<open>
  Claim C9 as stated is false: a ledger with records in APAC and EMEA only gets two
  summaries, none for Americas.
\<close>

theorem regional_summary_skips_empty_region:
  "map RegionalSummary.region (get_regional_summary db_two_regions) = [''APAC'', ''EMEA'']
   \<and> length (get_regional_summary db_two_regions) = 2"
proof -
  have "map RegionalSummary.region (get_regional_summary db_two_regions) = [''APAC'', ''EMEA'']"
    by (simp add: summary_regions db_two_regions_def sample_record_def regions_def)
  then show ?thesis using arg_cong [of _ _ length] by fastforce
qed

lemma sum_revenue_split3:
  assumes "\<forall>r \<in> set rs. SalesRecord.region r \<in> set regions"
  shows "sum_revenue (filter (\<lambda>r. SalesRecord.region r = ''APAC'') rs)
       + sum_revenue (filter (\<lambda>r. SalesRecord.region r = ''EMEA'') rs)
       + sum_revenue (filter (\<lambda>r. SalesRecord.region r = ''Americas'') rs) = sum_revenue rs"
  using assms by (induction rs) (auto simp: sum_revenue_def regions_def)

lemma sum_total_revenue:
  "sum_list (map RegionalSummary.total_revenue (get_regional_summary d))
   = py_round (sum_revenue (filter (\<lambda>r. SalesRecord.region r = ''APAC'') (sales_records d))) 2
   + py_round (sum_revenue (filter (\<lambda>r. SalesRecord.region r = ''EMEA'') (sales_records d))) 2
   + py_round (sum_revenue (filter (\<lambda>r. SalesRecord.region r = ''Americas'') (sales_records d))) 2"
  by (simp add: get_regional_summary_def regions_def Let_def py_round_zero sum_revenue_def)

lemma sum_revenue_cents:
  assumes "\<forall>r \<in> set rs. SalesRecord.revenue r * 100 \<in> \<int>"
  shows "sum_revenue rs * 100 \<in> \<int>"
  using assms by (induction rs) (simp_all add: sum_revenue_def distrib_right)

lemma py_round_sum_revenue:
  assumes "\<forall>r \<in> set rs. SalesRecord.revenue r * 100 \<in> \<int>"
  shows "py_round (sum_revenue (filter P rs)) 2 = sum_revenue (filter P rs)"
proof -
  have "\<forall>r \<in> set (filter P rs). SalesRecord.revenue r * 100 \<in> \<int>"
    using assms by simp
  from sum_revenue_cents [OF this] show ?thesis
    using py_round_exact [of _ 2] by simp
qed

text \<open>
  Claim C1 (as amended). For every ledger whose records all lie in APAC, EMEA or Americas:
  when every revenue is a whole number of hundredths (as the synthesizer stores it,
  \<^verbatim>\<open>revenue=round(revenue, 2)\<close>), the \<open>total_revenue\<close> fields of the returned summaries add
  up to the revenue of the whole ledger exactly; for any revenues the two sums differ by at
  most 0.015, because each regional total is rounded to two decimals.
\<close>

theorem regional_totals_sum:
  assumes "\<forall>r \<in> set (sales_records d). SalesRecord.region r \<in> set regions"
  shows "((\<forall>r \<in> set (sales_records d). SalesRecord.revenue r * 100 \<in> \<int>)
            \<longrightarrow> sum_list (map RegionalSummary.total_revenue (get_regional_summary d))
                  = sum_revenue (sales_records d))
       \<and> \<bar>sum_list (map RegionalSummary.total_revenue (get_regional_summary d))
            - sum_revenue (sales_records d)\<bar> \<le> 0.015"
proof (intro conjI impI)
  assume c: "\<forall>r \<in> set (sales_records d). SalesRecord.revenue r * 100 \<in> \<int>"
  show "sum_list (map RegionalSummary.total_revenue (get_regional_summary d))
      = sum_revenue (sales_records d)"
    unfolding sum_total_revenue py_round_sum_revenue [OF c]
    by (rule sum_revenue_split3 [OF assms])
next
  let ?f = "\<lambda>reg. sum_revenue (filter (\<lambda>r. SalesRecord.region r = reg) (sales_records d))"
  have "\<bar>py_round (?f ''APAC'') 2 - ?f ''APAC''\<bar> \<le> 0.005"
       "\<bar>py_round (?f ''EMEA'') 2 - ?f ''EMEA''\<bar> \<le> 0.005"
       "\<bar>py_round (?f ''Americas'') 2 - ?f ''Americas''\<bar> \<le> 0.005"
    by (rule py_round_error2)+
  then show "\<bar>sum_list (map RegionalSummary.total_revenue (get_regional_summary d))
            - sum_revenue (sales_records d)\<bar> \<le> 0.015"
    unfolding sum_total_revenue sum_revenue_split3 [OF assms, symmetric] by linarith
qed

theorem regional_totals_sum_witness:
  "sum_list (map RegionalSummary.total_revenue (get_regional_summary db_three_regions))
     = sum_revenue (sales_records db_three_regions)
   \<and> sum_revenue (sales_records db_three_regions) = 651.5
   \<and> \<bar>sum_list (map RegionalSummary.total_revenue (get_regional_summary db_fractions))
        - sum_revenue (sales_records db_fractions)\<bar> \<le> 0.015"
  using regional_totals_sum [of db_three_regions] regional_totals_sum [of db_fractions]
  by (simp add: db_three_regions_def db_fractions_def sample_record_def regions_def
      sum_revenue_def)

text \<open>
  Claim C1 as stated is false: with revenues of 1000.004 in each region every regional
  total is rounded to 1000, so the summaries add up to 3000 and the ledger to 3000.012.
\<close>

theorem regional_totals_rounded:
  "sum_list (map RegionalSummary.total_revenue (get_regional_summary db_fractions)) = 3000
   \<and> sum_revenue (sales_records db_fractions) = 3000.012"
  by (simp add: sum_total_revenue db_fractions_def sample_record_def sum_revenue_def
      py_round_def round_half_even_def Let_def)

section \<open>Properties of the KPI engine\<close>

lemma sum_revenue_nonneg:
  "\<forall>r \<in> set rs. 0 \<le> SalesRecord.revenue r \<Longrightarrow> 0 \<le> sum_revenue rs"
  by (induction rs) (simp_all add: sum_revenue_def)

lemma growth_of_returns:
  "growth_of cur prev = Inr (if 0 < prev then (cur - prev) / prev * 100 else 0)"
  by (simp add: growth_of_def py_truediv_def)

lemma avg_returns:
  "(if 0 < n then py_truediv c (of_nat n) else Inr 0) = Inr (if 0 < n then c / of_nat n else 0)"
  by (simp add: py_truediv_def)

lemma add_days_returns:
  assumes "1 \<le> toordinal t + k" and "toordinal t + k \<le> MAXORDINAL"
  shows "\<exists>t'. add_days t k = Inr t'"
  using assms by (simp add: add_days_def Let_def split: prod.splits)

text \<open>
  Claim C5. For every record set and every clock reading from 0001-03-02 on (so that the
  two window starts exist), the KPI operation returns a result: no error is raised, in
  particular no division by zero. When the revenue of the prior 30-day window is 0 the
  derived growth is 0, and so is the field \<open>revenue_growth\<close> of the result. Otherwise, for
  a ledger of non-negative revenues (the data model), the derived growth is
  \<open>(current - previous) / previous * 100\<close>; the field \<open>revenue_growth\<close> is the derived
  growth rounded to one decimal.
\<close>

theorem kpi_revenue_growth:
  assumes "60 < toordinal now" and "toordinal now \<le> MAXORDINAL"
  shows "\<exists>k s ps cur prev g.
     add_days now (- 30) = Inr s \<and> add_days now (- 60) = Inr ps
     \<and> cur = sum_revenue (current_sales_of d s)
     \<and> prev = sum_revenue (previous_sales_of d ps s)
     \<and> get_kpis d now = Inr k
     \<and> growth_of cur prev = Inr g
     \<and> revenue_growth k = py_round g 1
     \<and> (prev = 0 \<longrightarrow> g = 0 \<and> revenue_growth k = 0)
     \<and> (prev \<noteq> 0 \<and> (\<forall>r \<in> set (sales_records d). 0 \<le> SalesRecord.revenue r)
          \<longrightarrow> g = (cur - prev) / prev * 100)"
proof -
  from assms obtain s where s: "add_days now (- 30) = Inr s"
    using add_days_returns [of now "- 30"] by (auto simp: MAXORDINAL_def)
  from assms obtain ps where ps: "add_days now (- 60) = Inr ps"
    using add_days_returns [of now "- 60"] by (auto simp: MAXORDINAL_def)
  let ?cur = "sum_revenue (current_sales_of d s)"
  let ?prev = "sum_revenue (previous_sales_of d ps s)"
  let ?g = "if 0 < ?prev then (?cur - ?prev) / ?prev * 100 else 0"
  have g: "growth_of ?cur ?prev = Inr ?g"
    by (rule growth_of_returns)
  have "\<exists>k. get_kpis d now = Inr k \<and> revenue_growth k = py_round ?g 1"
    by (simp add: get_kpis_def s ps g Let_def avg_returns)
  then obtain k where k: "get_kpis d now = Inr k" "revenue_growth k = py_round ?g 1"
    by blast
  have zero: "?prev = 0 \<longrightarrow> ?g = 0 \<and> revenue_growth k = 0"
    using k(2) by (simp add: py_round_zero)
  have pos: "?g = (?cur - ?prev) / ?prev * 100"
    if "?prev \<noteq> 0" and "\<forall>r \<in> set (sales_records d). 0 \<le> SalesRecord.revenue r"
  proof -
    have "0 \<le> ?prev"
      using that(2) by (intro sum_revenue_nonneg) (simp add: previous_sales_of_def)
    with that(1) show ?thesis by simp
  qed
  from s ps g k zero pos show ?thesis by blast
qed

lemmas add_days_defs = add_days_def ord2ymd_def MAXORDINAL_def Let_def

lemma sample_ordinals:
  "toordinal (sample_date 2024 6 1) = 739038" "toordinal (sample_date 2024 7 15) = 739082"
  by (simp_all add: date_defs)

theorem kpi_revenue_growth_witness:
  "(\<exists>k. get_kpis db_kpi (sample_date 2024 6 1) = Inr k \<and> revenue_growth k = - 66.7)
   \<and> (\<exists>k. get_kpis db_two_regions (sample_date 2024 7 15) = Inr k \<and> revenue_growth k = 0)"
proof
  have a: "add_days (sample_date 2024 6 1) (- 30) = Inr (sample_date 2024 5 2)"
       "add_days (sample_date 2024 6 1) (- 60) = Inr (sample_date 2024 4 2)"
    by (simp_all add: add_days_defs date_defs)
  have c: "sum_revenue (current_sales_of db_kpi (sample_date 2024 5 2)) = 100"
    "sum_revenue (previous_sales_of db_kpi (sample_date 2024 4 2) (sample_date 2024 5 2)) = 300"
    by (simp_all add: date_defs db_kpi_def sample_record_def current_sales_of_def
        previous_sales_of_def sum_revenue_def)
  have r: "py_round (- (200 / 3)) 1 = - 66.7"
    by (simp add: py_round_def round_half_even_def Let_def)
  have h: "\<forall>r \<in> set (sales_records db_kpi). 0 \<le> SalesRecord.revenue r"
    by (simp add: db_kpi_def sample_record_def)
  have o: "60 < toordinal (sample_date 2024 6 1)" "toordinal (sample_date 2024 6 1) \<le> MAXORDINAL"
    by (simp_all add: sample_ordinals MAXORDINAL_def)
  from kpi_revenue_growth [OF o, of db_kpi]
  obtain k s ps cur prev g where *:
    "add_days (sample_date 2024 6 1) (- 30) = Inr s" "add_days (sample_date 2024 6 1) (- 60) = Inr ps"
    "cur = sum_revenue (current_sales_of db_kpi s)" "prev = sum_revenue (previous_sales_of db_kpi ps s)"
    "get_kpis db_kpi (sample_date 2024 6 1) = Inr k"
    "revenue_growth k = py_round g 1"
    "prev \<noteq> 0 \<and> (\<forall>r \<in> set (sales_records db_kpi). 0 \<le> SalesRecord.revenue r)
       \<longrightarrow> g = (cur - prev) / prev * 100"
    by blast
  from *(1,2) a have "s = sample_date 2024 5 2" "ps = sample_date 2024 4 2" by simp_all
  with *(3,4) c have cp: "cur = 100" "prev = 300" by simp_all
  with *(7) h have "g = - (200 / 3)" by simp
  with *(6) r have "revenue_growth k = - 66.7" by simp
  with *(5) show "\<exists>k. get_kpis db_kpi (sample_date 2024 6 1) = Inr k \<and> revenue_growth k = - 66.7"
    by blast
next
  have a: "add_days (sample_date 2024 7 15) (- 30) = Inr (sample_date 2024 6 15)"
       "add_days (sample_date 2024 7 15) (- 60) = Inr (sample_date 2024 5 16)"
    by (simp_all add: add_days_defs date_defs)
  have c: "sum_revenue (previous_sales_of db_two_regions (sample_date 2024 5 16) (sample_date 2024 6 15)) = 0"
    by (simp add: date_defs db_two_regions_def sample_record_def previous_sales_of_def sum_revenue_def)
  have o: "60 < toordinal (sample_date 2024 7 15)" "toordinal (sample_date 2024 7 15) \<le> MAXORDINAL"
    by (simp_all add: sample_ordinals MAXORDINAL_def)
  from kpi_revenue_growth [OF o, of db_two_regions]
  obtain k s ps prev where *:
    "add_days (sample_date 2024 7 15) (- 30) = Inr s" "add_days (sample_date 2024 7 15) (- 60) = Inr ps"
    "prev = sum_revenue (previous_sales_of db_two_regions ps s)"
    "get_kpis db_two_regions (sample_date 2024 7 15) = Inr k"
    "prev = 0 \<longrightarrow> revenue_growth k = 0"
    by blast
  from *(1,2) a have "s = sample_date 2024 6 15" "ps = sample_date 2024 5 16" by simp_all
  with *(3) c have "prev = 0" by simp
  with *(4,5) show "\<exists>k. get_kpis db_two_regions (sample_date 2024 7 15) = Inr k \<and> revenue_growth k = 0"
    by blast
qed

section \<open>Properties of the forecast engine\<close>

lemma add_month_keys:
  "fst ` set (add_month md r) = insert (strftime_Ym (order_date r)) (fst ` set md)"
  by (simp add: add_month_def Let_def dom_update)

lemma add_month_distinct: "distinct (map fst md) \<Longrightarrow> distinct (map fst (add_month md r))"
  by (simp add: add_month_def Let_def distinct_update)

lemma foldl_add_month_keys:
  "fst ` set (foldl add_month md rs) = fst ` set md \<union> (\<lambda>r. strftime_Ym (order_date r)) ` set rs"
  by (induction rs arbitrary: md) (auto simp: add_month_keys)

lemma foldl_add_month_distinct:
  "distinct (map fst md) \<Longrightarrow> distinct (map fst (foldl add_month md rs))"
  by (induction rs arbitrary: md) (simp_all add: add_month_distinct)

lemma monthly_data_keys:
  "set (map fst (monthly_data_of rs)) = (\<lambda>r. strftime_Ym (order_date r)) ` set rs"
  using foldl_add_month_keys [of "[]" rs] by (simp add: monthly_data_of_def)

lemma monthly_data_distinct: "distinct (map fst (monthly_data_of rs))"
  by (simp add: monthly_data_of_def foldl_add_month_distinct)

lemma monthly_data_length:
  "length (monthly_data_of rs) = card ((\<lambda>r. strftime_Ym (order_date r)) ` set rs)"
  using distinct_card [OF monthly_data_distinct, of rs] monthly_data_keys [of rs] by simp

lemma lookup_all_returns:
  "set ks \<subseteq> fst ` set d \<Longrightarrow> \<exists>vs. lookup_all d ks = Inr vs \<and> length vs = length ks"
proof (induction ks)
  case Nil
  show ?case by simp
next
  case (Cons k ks)
  then obtain vs where vs: "lookup_all d ks = Inr vs" "length vs = length ks" by auto
  from Cons.prems have "k \<in> fst ` set d" by simp
  then obtain v where "map_of d k = Some v"
    by (metis domD dom_map_of_conv_image_fst)
  with vs show ?case by simp
qed

lemma monthly_revenues_returns:
  "\<exists>vs. monthly_revenues rs = Inr vs \<and> length vs = length (monthly_data_of rs)"
  using lookup_all_returns [of "sort (map fst (monthly_data_of rs))" "monthly_data_of rs"]
  by (simp add: monthly_revenues_def Let_def)

lemma index_of_returns: "x \<in> set ys \<Longrightarrow> \<exists>j. index_of ys x = Inr j \<and> j < length ys"
  by (induction ys) auto

lemma historical_points_returns:
  "set ms \<subseteq> set sm \<Longrightarrow> length revs = length sm \<Longrightarrow>
   \<exists>ps. historical_points sm revs ms = Inr ps \<and> length ps = length ms
      \<and> (\<forall>pt \<in> set ps. forecasted_revenue pt = None)"
proof (induction ms)
  case Nil
  show ?case by simp
next
  case (Cons m ms)
  then obtain ps where ps: "historical_points sm revs ms = Inr ps" "length ps = length ms"
    "\<forall>pt \<in> set ps. forecasted_revenue pt = None" by auto
  from Cons.prems obtain j where j: "index_of sm m = Inr j" "j < length sm"
    using index_of_returns [of m sm] by auto
  with Cons.prems(2) have "get_item revs j = Inr (revs ! j)" by (simp add: get_item_def)
  with ps j show ?case by simp
qed

lemma future_points_returns:
  "\<forall>i \<in> set idx. 1 \<le> toordinal now + 30 * i \<and> toordinal now + 30 * i \<le> MAXORDINAL \<Longrightarrow>
   \<exists>ps. future_points now a b li idx = Inr ps \<and> length ps = length idx
      \<and> (\<forall>n < length idx. \<exists>m. ps ! n = future_point m (forecasted_value_of a b li (idx ! n)))"
proof (induction idx)
  case Nil
  show ?case by simp
next
  case (Cons i idx)
  then obtain ps where ps: "future_points now a b li idx = Inr ps" "length ps = length idx"
    "\<forall>n < length idx. \<exists>m. ps ! n = future_point m (forecasted_value_of a b li (idx ! n))" by auto
  from Cons.prems obtain t where t: "add_days now (30 * i) = Inr t"
    using add_days_returns [of now "30 * i"] by auto
  have "\<exists>m. (future_point (strftime_Ym t) (forecasted_value_of a b li i) # ps) ! n
          = future_point m (forecasted_value_of a b li ((i # idx) ! n))"
    if "n < length (i # idx)" for n
    using that ps(3) by (cases n) auto
  with ps t show ?case by simp
qed

lemma future_points_elems:
  "future_points now a b li idx = Inr ps \<Longrightarrow>
   \<forall>pt \<in> set ps. \<exists>m i. i \<in> set idx \<and> pt = future_point m (forecasted_value_of a b li i)"
proof (induction idx arbitrary: ps)
  case Nil
  then show ?case by simp
next
  case (Cons i idx)
  then show ?case by (auto split: sum.splits) blast+
qed

lemma monthly_revenues_Nil: "monthly_revenues [] = Inr []"
  by (simp add: monthly_revenues_def monthly_data_of_def)

lemma py_round_int: "py_round (of_int n) k = of_int n"
  by (rule py_round_exact) simp

lemma upt_3: "[0..<3] = [0, 1, 2]"
  by (simp add: upt_rec)

lemma polyfit1_sample: "polyfit1 (map of_nat [0..<3]) [100, 200, 300] = (100, 100)"
  by (simp add: polyfit1_def Let_def upt_3)

lemma forecast_unfold:
  assumes "add_days now (- 365) = Inr start"
    and "forecast_sales_of d start \<noteq> []"
    and "monthly_revenues (forecast_sales_of d start) = Inr revenues"
    and "3 \<le> length revenues"
  shows "get_sales_forecast d now months =
    (let sorted_months = sort (map fst (monthly_data_of (forecast_sales_of d start)));
         coeffs = polyfit1 (map of_nat [0 ..< length revenues]) revenues
     in case historical_points sorted_months revenues
               (drop (length sorted_months - 6) sorted_months) of
          Inl e \<Rightarrow> Inl e
        | Inr hist \<Rightarrow>
            (case future_points now (fst coeffs) (snd coeffs) (int (length revenues) - 1)
                    [1 .. months] of
               Inl e \<Rightarrow> Inl e
             | Inr fut \<Rightarrow> Inr (hist @ fut)))"
  using assms
  by (simp add: get_sales_forecast_def monthly_revenues_def Let_def split: sum.splits)

lemma forecast_few_months:
  assumes "add_days now (- 365) = Inr start"
    and "card ((\<lambda>r. strftime_Ym (order_date r)) ` set (forecast_sales_of d start)) < 3"
  shows "get_sales_forecast d now months = Inr []"
proof -
  obtain vs where vs: "monthly_revenues (forecast_sales_of d start) = Inr vs"
    "length vs = length (monthly_data_of (forecast_sales_of d start))"
    using monthly_revenues_returns by blast
  with assms(2) have "length vs < 3" by (simp add: monthly_data_length)
  with vs(1) assms(1) show ?thesis
    by (simp add: get_sales_forecast_def monthly_revenues_def Let_def)
qed

lemma historical_all:
  assumes "monthly_revenues sales = Inr revenues"
  shows "\<exists>hist. historical_points (sort (map fst (monthly_data_of sales))) revenues
            (drop (length (sort (map fst (monthly_data_of sales))) - 6)
               (sort (map fst (monthly_data_of sales)))) = Inr hist
          \<and> length hist = min 6 (length revenues)
          \<and> (\<forall>pt \<in> set hist. forecasted_revenue pt = None)"
proof -
  let ?sm = "sort (map fst (monthly_data_of sales))"
  from monthly_revenues_returns [of sales] assms
  have len: "length revenues = length ?sm" by auto
  have "set (drop (length ?sm - 6) ?sm) \<subseteq> set ?sm" by (rule set_drop_subset)
  from historical_points_returns [OF this len]
  show ?thesis using len by auto
qed

lemma polyfit1_list: "polyfit1 [0, 1, 2] [100, 200, 300] = (100, 100)"
  by (simp add: polyfit1_def Let_def)

lemma future_points_range:
  assumes "0 < toordinal now" and "toordinal now + 30 * months \<le> MAXORDINAL"
  shows "\<exists>ps. future_points now a b li [1 .. months] = Inr ps \<and> length ps = nat months
      \<and> (\<forall>n < nat months. \<exists>m. ps ! n = future_point m (forecasted_value_of a b li (1 + int n)))"
proof -
  have "\<forall>i \<in> set [1 .. months]. 1 \<le> toordinal now + 30 * i \<and> toordinal now + 30 * i \<le> MAXORDINAL"
    using assms by auto
  from future_points_returns [OF this, of a b li]
  obtain ps where ps: "future_points now a b li [1 .. months] = Inr ps"
    "length ps = length [1 .. months]"
    "\<forall>n < length [1 .. months]. \<exists>m. ps ! n = future_point m (forecasted_value_of a b li ([1 .. months] ! n))"
    by blast
  have "\<exists>m. ps ! n = future_point m (forecasted_value_of a b li (1 + int n))" if "n < nat months" for n
    using ps(3) that by (auto simp: nth_upto)
  with ps(1,2) show ?thesis by auto
qed

text \<open>
  Claim C4. With a clock reading whose one-year lookback exists: when the records of the
  window fall into fewer than 3 distinct months, the forecast operation returns the empty
  list; when the monthly revenues in ascending month order are 100, 200, 300 (and the
  requested future months stay in the calendar), the least-squares fit has slope 100 and
  intercept 100, the three actual months come first, and the first future point (regression
  index 3, position 3 of the output) has forecasted revenue 400 with confidence interval
  lower 320 and upper 480.
\<close>

theorem forecast_three_months:
  assumes "365 < toordinal now" and "toordinal now \<le> MAXORDINAL"
  shows "\<exists>start. add_days now (- 365) = Inr start
     \<and> (card ((\<lambda>r. strftime_Ym (order_date r)) ` set (forecast_sales_of d start)) < 3
          \<longrightarrow> get_sales_forecast d now months = Inr [])
     \<and> (monthly_revenues (forecast_sales_of d start) = Inr [100, 200, 300]
          \<and> 1 \<le> months \<and> toordinal now + 30 * months \<le> MAXORDINAL
          \<longrightarrow> polyfit1 (map of_nat [0..<3]) [100, 200, 300] = (100, 100)
            \<and> (\<exists>pts. get_sales_forecast d now months = Inr pts
                  \<and> length pts = 3 + nat months
                  \<and> (\<forall>i < 3. forecasted_revenue (pts ! i) = None)
                  \<and> actual_revenue (pts ! 3) = None
                  \<and> forecasted_revenue (pts ! 3) = Some 400
                  \<and> confidence_interval (pts ! 3) = Some [(''lower'', 320), (''upper'', 480)]))"
proof -
  from assms obtain start where start: "add_days now (- 365) = Inr start"
    using add_days_returns [of now "- 365"] by (auto simp: MAXORDINAL_def)
  have few: "get_sales_forecast d now months = Inr []"
    if "card ((\<lambda>r. strftime_Ym (order_date r)) ` set (forecast_sales_of d start)) < 3"
    using forecast_few_months [OF start that] .
  have three: "\<exists>pts. get_sales_forecast d now months = Inr pts
                  \<and> length pts = 3 + nat months
                  \<and> (\<forall>i < 3. forecasted_revenue (pts ! i) = None)
                  \<and> actual_revenue (pts ! 3) = None
                  \<and> forecasted_revenue (pts ! 3) = Some 400
                  \<and> confidence_interval (pts ! 3) = Some [(''lower'', 320), (''upper'', 480)]"
    if revs: "monthly_revenues (forecast_sales_of d start) = Inr [100, 200, 300]"
      and m: "1 \<le> months" "toordinal now + 30 * months \<le> MAXORDINAL"
  proof -
    let ?sales = "forecast_sales_of d start"
    from revs have ne: "?sales \<noteq> []" by (auto simp: monthly_revenues_Nil)
    from historical_all [OF revs] obtain hist where hist:
      "historical_points (sort (map fst (monthly_data_of ?sales))) [100, 200, 300]
         (drop (length (sort (map fst (monthly_data_of ?sales))) - 6)
            (sort (map fst (monthly_data_of ?sales)))) = Inr hist"
      "length hist = 3" "\<forall>pt \<in> set hist. forecasted_revenue pt = None" by auto
    from future_points_range [of now months 100 100 2] assms(1) m(2)
    obtain fut where fut: "future_points now 100 100 2 [1 .. months] = Inr fut"
      "length fut = nat months"
      "\<forall>n < nat months. \<exists>mk. fut ! n = future_point mk (forecasted_value_of 100 100 2 (1 + int n))"
      by auto
    from m(1) fut(3) obtain mk where mk: "fut ! 0 = future_point mk (forecasted_value_of 100 100 2 1)"
      by force
    have v: "forecasted_value_of 100 100 2 1 = 400" by (simp add: forecasted_value_of_def)
    have r: "py_round 400 2 = 400" "py_round 320 2 = 320" "py_round 480 2 = 480"
      using py_round_int [of 400 2] py_round_int [of 320 2] py_round_int [of 480 2] by simp_all
    have pt: "fut ! 0 = \<lparr>ForecastData.period = mk, actual_revenue = None,
        forecasted_revenue = Some 400,
        confidence_interval = Some [(''lower'', 320), (''upper'', 480)]\<rparr>"
      unfolding mk v by (simp add: future_point_def Let_def r)
    have g: "get_sales_forecast d now months = Inr (hist @ fut)"
      using forecast_unfold [OF start ne revs, of months] hist(1) fut(1)
      by (simp add: Let_def polyfit1_list upt_3 upt_rec)
    have "\<forall>i < 3. forecasted_revenue ((hist @ fut) ! i) = None"
      using hist(2,3) by (auto simp: nth_append)
    moreover have "(hist @ fut) ! 3 = fut ! 0" using hist(2) by (simp add: nth_append)
    ultimately show ?thesis using g hist(2) fut(2) pt by simp
  qed
  from start few three polyfit1_sample show ?thesis by blast
qed

lemmas string_defs = strftime_Ym_def zfill_def str_int_def str_nat.simps digit_char_def

lemma sample_month_keys:
  "strftime_Ym (sample_date 2024 1 15) = ''2024-01''"
  "strftime_Ym (sample_date 2024 2 15) = ''2024-02''"
  "strftime_Ym (sample_date 2024 2 20) = ''2024-02''"
  "strftime_Ym (sample_date 2024 3 15) = ''2024-03''"
  "strftime_Ym (sample_date 2024 4 20) = ''2024-04''"
  "strftime_Ym (sample_date 2024 5 10) = ''2024-05''"
  by (simp_all add: string_defs sample_date_def)

lemma sample_starts:
  "add_days (sample_date 2024 6 1) (- 365) = Inr (sample_date 2023 6 2)"
  "add_days (sample_date 2024 4 1) (- 365) = Inr (sample_date 2023 4 2)"
  by (simp_all add: add_days_defs date_defs)

lemma sample_windows:
  "forecast_sales_of db_kpi (sample_date 2023 6 2) = sales_records db_kpi"
  "forecast_sales_of db_growth (sample_date 2023 4 2) = sales_records db_growth"
  "forecast_sales_of db_decline (sample_date 2023 4 2) = sales_records db_decline"
  by (simp_all add: forecast_sales_of_def db_kpi_def db_growth_def db_decline_def
      sample_record_def date_defs)

lemma sample_order_dates:
  "order_date (sample_record reg cid t v st) = t" "SalesRecord.revenue (sample_record reg cid t v st) = v"
  by (simp_all add: sample_record_def)

lemma db_growth_revenues: "monthly_revenues (sales_records db_growth) = Inr [100, 200, 300]"
  by (simp add: monthly_revenues_def monthly_data_of_def add_month_def Let_def db_growth_def
      sample_order_dates sample_month_keys)

lemma db_decline_revenues: "monthly_revenues (sales_records db_decline) = Inr [0.03, 0.02, 0.01]"
  by (simp add: monthly_revenues_def monthly_data_of_def add_month_def Let_def db_decline_def
      sample_order_dates sample_month_keys)

lemma db_kpi_months:
  "card ((\<lambda>r. strftime_Ym (order_date r)) ` set (sales_records db_kpi)) = 2"
  by (simp add: db_kpi_def sample_order_dates sample_month_keys)

lemma sample_ordinals2: "toordinal (sample_date 2024 4 1) = 738977"
  by (simp add: date_defs)

theorem forecast_three_months_witness:
  "get_sales_forecast db_kpi (sample_date 2024 6 1) 6 = Inr []
   \<and> (\<exists>pts. get_sales_forecast db_growth (sample_date 2024 4 1) 2 = Inr pts
        \<and> length pts = 5
        \<and> forecasted_revenue (pts ! 3) = Some 400
        \<and> confidence_interval (pts ! 3) = Some [(''lower'', 320), (''upper'', 480)])"
proof
  from forecast_three_months [of "sample_date 2024 6 1" db_kpi 6]
  show "get_sales_forecast db_kpi (sample_date 2024 6 1) 6 = Inr []"
    by (auto simp: sample_ordinals MAXORDINAL_def sample_starts sample_windows db_kpi_months)
next
  from forecast_three_months [of "sample_date 2024 4 1" db_growth 2]
  show "\<exists>pts. get_sales_forecast db_growth (sample_date 2024 4 1) 2 = Inr pts
        \<and> length pts = 5
        \<and> forecasted_revenue (pts ! 3) = Some 400
        \<and> confidence_interval (pts ! 3) = Some [(''lower'', 320), (''upper'', 480)]"
    by (auto simp: sample_ordinals2 MAXORDINAL_def sample_starts sample_windows db_growth_revenues)
qed

lemma forecast_returns:
  assumes "add_days now (- 365) = Inr start"
    and "monthly_revenues (forecast_sales_of d start) = Inr revenues"
    and "3 \<le> length revenues"
    and "0 < toordinal now" and "toordinal now + 30 * months \<le> MAXORDINAL"
  shows "\<exists>hist fut. get_sales_forecast d now months = Inr (hist @ fut)
     \<and> length hist = min 6 (length revenues)
     \<and> (\<forall>pt \<in> set hist. forecasted_revenue pt = None)
     \<and> length fut = nat months
     \<and> (\<forall>n < nat months. \<exists>mk. fut ! n = future_point mk
           (forecasted_value_of (fst (polyfit1 (map of_nat [0 ..< length revenues]) revenues))
              (snd (polyfit1 (map of_nat [0 ..< length revenues]) revenues))
              (int (length revenues) - 1) (1 + int n)))"
proof -
  let ?sales = "forecast_sales_of d start"
  from assms(2,3) have ne: "?sales \<noteq> []" by (auto simp: monthly_revenues_Nil)
  from historical_all [OF assms(2)] obtain hist where hist:
    "historical_points (sort (map fst (monthly_data_of ?sales))) revenues
       (drop (length (sort (map fst (monthly_data_of ?sales))) - 6)
          (sort (map fst (monthly_data_of ?sales)))) = Inr hist"
    "length hist = min 6 (length revenues)" "\<forall>pt \<in> set hist. forecasted_revenue pt = None"
    by auto
  let ?a = "fst (polyfit1 (map of_nat [0 ..< length revenues]) revenues)"
  let ?b = "snd (polyfit1 (map of_nat [0 ..< length revenues]) revenues)"
  from future_points_range [OF assms(4,5), of ?a ?b "int (length revenues) - 1"]
  obtain fut where fut:
    "future_points now ?a ?b (int (length revenues) - 1) [1 .. months] = Inr fut"
    "length fut = nat months"
    "\<forall>n < nat months. \<exists>mk. fut ! n = future_point mk
        (forecasted_value_of ?a ?b (int (length revenues) - 1) (1 + int n))"
    by auto
  have "get_sales_forecast d now months = Inr (hist @ fut)"
    using forecast_unfold [OF assms(1) ne assms(2,3), of months] hist(1) fut(1)
    by (simp add: Let_def)
  with hist(2,3) fut(2,3) show ?thesis by blast
qed

lemma historical_points_elems:
  "historical_points sm revs ms = Inr ps \<Longrightarrow> \<forall>pt \<in> set ps. forecasted_revenue pt = None"
  by (induction ms arbitrary: ps) (auto split: sum.splits)

lemma forecast_point_origin:
  assumes "get_sales_forecast d now months = Inr pts" and "pt \<in> set pts"
    and "forecasted_revenue pt \<noteq> None"
  shows "\<exists>start revenues i mk. add_days now (- 365) = Inr start
     \<and> monthly_revenues (forecast_sales_of d start) = Inr revenues
     \<and> 1 \<le> i \<and> i \<le> months
     \<and> pt = future_point mk
         (forecasted_value_of (fst (polyfit1 (map of_nat [0 ..< length revenues]) revenues))
            (snd (polyfit1 (map of_nat [0 ..< length revenues]) revenues))
            (int (length revenues) - 1) i)"
proof -
  from assms(1) obtain start where start: "add_days now (- 365) = Inr start"
    by (cases "add_days now (- 365)") (simp_all add: get_sales_forecast_def)
  let ?sales = "forecast_sales_of d start"
  from assms(1,2) start have ne: "?sales \<noteq> []"
    by (auto simp: get_sales_forecast_def Let_def)
  obtain revenues where revs: "monthly_revenues ?sales = Inr revenues"
    using monthly_revenues_returns by blast
  have len: "3 \<le> length revenues"
  proof (rule ccontr)
    assume "\<not> 3 \<le> length revenues"
    with assms(1) start ne revs have "pts = []"
      by (simp add: get_sales_forecast_def monthly_revenues_def Let_def)
    with assms(2) show False by simp
  qed
  let ?sm = "sort (map fst (monthly_data_of ?sales))"
  let ?a = "fst (polyfit1 (map of_nat [0 ..< length revenues]) revenues)"
  let ?b = "snd (polyfit1 (map of_nat [0 ..< length revenues]) revenues)"
  from assms(1) forecast_unfold [OF start ne revs len, of months]
  obtain hist fut where hf:
    "historical_points ?sm revenues (drop (length ?sm - 6) ?sm) = Inr hist"
    "future_points now ?a ?b (int (length revenues) - 1) [1 .. months] = Inr fut"
    "pts = hist @ fut"
    by (auto simp: Let_def split: sum.splits)
  from historical_points_elems [OF hf(1)] assms(2,3) hf(3) have "pt \<in> set fut" by auto
  with future_points_elems [OF hf(2)] obtain mk i where
    "i \<in> set [1 .. months]" "pt = future_point mk (forecasted_value_of ?a ?b (int (length revenues) - 1) i)"
    by blast
  with start revs show ?thesis by auto
qed

lemma band_nonneg:
  assumes "0 \<le> fv"
  shows "py_round (fv * 0.8) 2 \<le> py_round fv 2 \<and> py_round fv 2 \<le> py_round (fv * 1.2) 2"
  using assms by (intro conjI py_round_mono) (simp_all add: mult_left_le)

lemma band_neg:
  assumes "fv < 0"
  shows "py_round (fv * 1.2) 2 \<le> py_round fv 2 \<and> py_round fv 2 \<le> py_round (fv * 0.8) 2"
  using assms by (intro conjI py_round_mono) simp_all

lemma band_strict:
  assumes "fv < - 0.025"
  shows "py_round (fv * 1.2) 2 < py_round (fv * 0.8) 2"
  using py_round_error2 [of "fv * 1.2"] py_round_error2 [of "fv * 0.8"] assms
  by (simp add: abs_if split: if_splits)

text \<open>
  Claim C10 (as amended). Every future point of the forecast has
  \<open>forecasted_revenue = round(fv, 2)\<close>, \<open>lower = round(fv * 0.8, 2)\<close> and
  \<open>upper = round(fv * 1.2, 2)\<close>, where \<open>fv\<close> is the value of the fitted line at the
  point's index. If \<open>fv\<close> is non-negative then \<open>lower \<le> forecasted_revenue \<le> upper\<close>; if
  \<open>fv\<close> is negative the band is inverted, \<open>upper \<le> forecasted_revenue \<le> lower\<close>, and the
  lower bound is strictly above the upper bound once \<open>fv < -0.025\<close>. For a negative \<open>fv\<close>
  nearer to zero the rounding can make the three values equal.
\<close>

theorem forecast_confidence_band:
  assumes "get_sales_forecast d now months = Inr pts" and "pt \<in> set pts"
    and "forecasted_revenue pt \<noteq> None"
  shows "\<exists>start revenues i fv. add_days now (- 365) = Inr start
     \<and> monthly_revenues (forecast_sales_of d start) = Inr revenues
     \<and> 1 \<le> i \<and> i \<le> months
     \<and> fv = forecasted_value_of (fst (polyfit1 (map of_nat [0 ..< length revenues]) revenues))
              (snd (polyfit1 (map of_nat [0 ..< length revenues]) revenues))
              (int (length revenues) - 1) i
     \<and> forecasted_revenue pt = Some (py_round fv 2)
     \<and> confidence_interval pt = Some [(''lower'', py_round (fv * 0.8) 2),
                                        (''upper'', py_round (fv * 1.2) 2)]
     \<and> (0 \<le> fv \<longrightarrow> py_round (fv * 0.8) 2 \<le> py_round fv 2
                    \<and> py_round fv 2 \<le> py_round (fv * 1.2) 2)
     \<and> (fv < 0 \<longrightarrow> py_round (fv * 1.2) 2 \<le> py_round fv 2
                    \<and> py_round fv 2 \<le> py_round (fv * 0.8) 2)
     \<and> (fv < - 0.025 \<longrightarrow> py_round (fv * 1.2) 2 < py_round (fv * 0.8) 2)"
proof -
  from forecast_point_origin [OF assms] obtain start revenues i mk where o:
    "add_days now (- 365) = Inr start"
    "monthly_revenues (forecast_sales_of d start) = Inr revenues" "1 \<le> i" "i \<le> months"
    "pt = future_point mk
       (forecasted_value_of (fst (polyfit1 (map of_nat [0 ..< length revenues]) revenues))
          (snd (polyfit1 (map of_nat [0 ..< length revenues]) revenues))
          (int (length revenues) - 1) i)"
    by blast
  define fv where "fv = forecasted_value_of (fst (polyfit1 (map of_nat [0 ..< length revenues]) revenues))
          (snd (polyfit1 (map of_nat [0 ..< length revenues]) revenues))
          (int (length revenues) - 1) i"
  from o(5) have pt: "forecasted_revenue pt = Some (py_round fv 2)"
    "confidence_interval pt = Some [(''lower'', py_round (fv * 0.8) 2),
                                    (''upper'', py_round (fv * 1.2) 2)]"
    by (simp_all add: future_point_def Let_def fv_def)
  from o(1-4) pt fv_def band_nonneg [of fv] band_neg [of fv] band_strict [of fv]
  show ?thesis by blast
qed

theorem forecast_confidence_band_witness:
  "\<exists>pts pt fv. get_sales_forecast db_growth (sample_date 2024 4 1) 2 = Inr pts
     \<and> pt \<in> set pts
     \<and> forecasted_revenue pt = Some (py_round fv 2)
     \<and> confidence_interval pt = Some [(''lower'', py_round (fv * 0.8) 2),
                                        (''upper'', py_round (fv * 1.2) 2)]"
proof -
  have revs: "monthly_revenues (forecast_sales_of db_growth (sample_date 2023 4 2))
      = Inr [100, 200, 300]"
    by (simp add: sample_windows db_growth_revenues)
  from forecast_returns [OF sample_starts(2) revs, of 2]
  obtain hist fut where hf:
    "get_sales_forecast db_growth (sample_date 2024 4 1) 2 = Inr (hist @ fut)"
    "length fut = 2"
    "\<forall>n < 2. \<exists>mk v. fut ! n = future_point mk v"
    by (auto simp: sample_ordinals2 MAXORDINAL_def) blast
  from hf(3) obtain mk v where pt: "fut ! 0 = future_point mk v" by force
  have mem: "fut ! 0 \<in> set (hist @ fut)" using hf(2) by simp
  have nn: "forecasted_revenue (fut ! 0) \<noteq> None" by (simp add: pt future_point_def Let_def)
  from forecast_confidence_band [OF hf(1) mem nn] hf(1) mem show ?thesis by blast
qed

lemma polyfit1_decline:
  "polyfit1 [0, 1, 2] [3 / 100, 1 / 50, 1 / 100] = (- (1 / 100), 3 / 100)"
  by (simp add: polyfit1_def Let_def)

text \<open>
  Claim C10 as stated is false: with monthly revenues 0.03, 0.02, 0.01 the fitted line
  gives -0.01 for the second future month, and the point has forecasted revenue, lower
  bound and upper bound all equal to -0.01. So \<open>lower \<le> forecasted_revenue \<le> upper\<close>
  holds for a negative forecast, and the lower bound does not exceed the upper bound.
\<close>

theorem forecast_band_collapses:
  "\<exists>pts. get_sales_forecast db_decline (sample_date 2024 4 1) 2 = Inr pts
     \<and> length pts = 5
     \<and> forecasted_revenue (pts ! 4) = Some (- 0.01)
     \<and> confidence_interval (pts ! 4) = Some [(''lower'', - 0.01), (''upper'', - 0.01)]"
proof -
  have revs: "monthly_revenues (forecast_sales_of db_decline (sample_date 2023 4 2))
      = Inr [0.03, 0.02, 0.01]"
    by (simp add: sample_windows db_decline_revenues)
  from forecast_returns [OF sample_starts(2) revs, of 2]
  obtain hist fut where hf:
    "get_sales_forecast db_decline (sample_date 2024 4 1) 2 = Inr (hist @ fut)"
    "length hist = 3" "length fut = 2"
    "\<forall>n < 2. \<exists>mk. fut ! n
       = future_point mk (forecasted_value_of (- (1 / 100)) (3 / 100) 2 (1 + int n))"
    by (auto simp: sample_ordinals2 MAXORDINAL_def upt_3 polyfit1_decline)
  from hf(4) have "\<exists>mk. fut ! 1
       = future_point mk (forecasted_value_of (- (1 / 100)) (3 / 100) 2 (1 + int 1))"
    by (rule allE [of _ 1]) simp
  then obtain mk where
    "fut ! 1 = future_point mk (forecasted_value_of (- (1 / 100)) (3 / 100) 2 2)"
    by auto
  then have pt: "fut ! 1 = \<lparr>ForecastData.period = mk, actual_revenue = None,
        forecasted_revenue = Some (- 0.01),
        confidence_interval = Some [(''lower'', - 0.01), (''upper'', - 0.01)]\<rparr>"
    by (simp add: future_point_def forecasted_value_of_def Let_def py_round_def round_half_even_def)
  have "(hist @ fut) ! 4 = fut ! 1" using hf(2) by (simp add: nth_append)
  with hf(1,2,3) pt show ?thesis by simp
qed

section \<open>Properties of the top customers\<close>


lemma first_seen_Nil [simp]: "first_seen [] = []"
  by (simp add: first_seen_def)















section \<open>Properties of the period aggregation\<close>

lemma period_key_yearly:
  "p \<noteq> ''monthly'' \<Longrightarrow> p \<noteq> ''quarterly'' \<Longrightarrow> period_key p t = str_int (year t)"
  by (simp add: period_key_def)

lemma add_trend_yearly:
  "p \<noteq> ''monthly'' \<Longrightarrow> p \<noteq> ''quarterly'' \<Longrightarrow> add_trend p = add_trend ''yearly''"
  by (intro ext) (simp add: add_trend_def period_key_def)

lemma add_trend_keys:
  "fst ` set (add_trend p trends r) = insert (period_key p (order_date r)) (fst ` set trends)"
  by (simp add: add_trend_def Let_def dom_update)

lemma foldl_add_trend_keys:
  "fst ` set (foldl (add_trend p) trends rs)
     = fst ` set trends \<union> (\<lambda>r. period_key p (order_date r)) ` set rs"
  by (induction rs arbitrary: trends) (auto simp: add_trend_keys)

lemma add_trend_distinct:
  "distinct (map fst trends) \<Longrightarrow> distinct (map fst (add_trend p trends r))"
  by (simp add: add_trend_def Let_def distinct_update)

lemma foldl_add_trend_distinct:
  "distinct (map fst trends) \<Longrightarrow> distinct (map fst (foldl (add_trend p) trends rs))"
  by (induction rs arbitrary: trends) (simp_all add: add_trend_distinct)

lemma add_trend_map_of:
  "map_of (add_trend p trends r) k =
     (if k = period_key p (order_date r)
      then Some (case map_of trends k of
                   None \<Rightarrow> \<lparr>trend_data.revenue = SalesRecord.revenue r, trend_data.orders = 1\<rparr>
                 | Some e \<Rightarrow> \<lparr>trend_data.revenue = trend_data.revenue e + SalesRecord.revenue r,
                               trend_data.orders = trend_data.orders e + 1\<rparr>)
      else map_of trends k)"
  by (simp add: add_trend_def Let_def update_conv' split: option.splits)

lemma foldl_add_trend_map_of:
  "map_of (foldl (add_trend p) trends rs) k =
     (let mine = filter (\<lambda>r. period_key p (order_date r) = k) rs
      in case map_of trends k of
           None \<Rightarrow> (if mine = [] then None
                     else Some \<lparr>trend_data.revenue = sum_revenue mine,
                                trend_data.orders = length mine\<rparr>)
         | Some e \<Rightarrow> Some \<lparr>trend_data.revenue = trend_data.revenue e + sum_revenue mine,
                             trend_data.orders = trend_data.orders e + length mine\<rparr>)"
proof (induction rs arbitrary: trends)
  case Nil
  show ?case by (simp add: sum_revenue_def split: option.splits)
next
  case (Cons r rs)
  show ?case
    by (simp add: Cons.IH add_trend_map_of Let_def sum_revenue_def split: option.splits)
qed

lemma trends_entries:
  assumes "tr \<in> set (get_sales_trends p reg d)"
  shows "trend.period tr \<in> (\<lambda>r. period_key p (order_date r)) ` set (find_sales d reg)
     \<and> trend.revenue tr = sum_revenue
         (filter (\<lambda>r. period_key p (order_date r) = trend.period tr) (find_sales d reg))
     \<and> trend.orders tr = length
         (filter (\<lambda>r. period_key p (order_date r) = trend.period tr) (find_sales d reg))"
proof -
  let ?sales = "find_sales d reg"
  let ?trends = "foldl (add_trend p) [] ?sales"
  from assms obtain k e where ke: "(k, e) \<in> set ?trends"
    "tr = \<lparr>trend.period = k, trend.revenue = trend_data.revenue e, trend.orders = trend_data.orders e\<rparr>"
    by (auto simp: get_sales_trends_def Let_def split: if_splits)
  have "distinct (map fst ?trends)" by (simp add: foldl_add_trend_distinct)
  with ke(1) have "map_of ?trends k = Some e" by simp
  then show ?thesis unfolding ke(2)
    by (auto simp: foldl_add_trend_map_of Let_def filter_empty_conv split: if_splits)
qed

lemma map_insort_key: "map f (insort_key f x xs) = insort (f x) (map f xs)"
  by (induction xs) simp_all

lemma map_sort_key: "map f (sort_key f xs) = sort (map f xs)"
  by (induction xs) (simp_all add: map_insort_key)

lemma trends_period_list:
  "map trend.period (get_sales_trends p reg d)
     = sort (map fst (foldl (add_trend p) [] (find_sales d reg)))"
proof -
  have m: "map trend.period (map (\<lambda>(k, e). \<lparr>trend.period = k, trend.revenue = trend_data.revenue e,
            trend.orders = trend_data.orders e\<rparr>) trends) = map fst trends" for trends
    by (induction trends) auto
  show ?thesis
  proof (cases "find_sales d reg = []")
    case True
    then show ?thesis by (simp add: get_sales_trends_def)
  next
    case False
    then show ?thesis
      unfolding get_sales_trends_def Let_def by (simp only: if_False map_sort_key m)
  qed
qed

lemma trends_periods:
  "set (map trend.period (get_sales_trends p reg d))
     = (\<lambda>r. period_key p (order_date r)) ` set (find_sales d reg)"
  unfolding trends_period_list using foldl_add_trend_keys [of p "[]" "find_sales d reg"] by simp

lemma trends_sorted:
  "sorted (map trend.period (get_sales_trends p reg d))
   \<and> distinct (map trend.period (get_sales_trends p reg d))"
  unfolding trends_period_list by (simp add: foldl_add_trend_distinct)

lemma str_nat_length:
  "length (str_nat n) = (if n < 10 then 1 else Suc (length (str_nat (n div 10))))"
  by (subst str_nat.simps) simp

lemma str_int_four_digits:
  assumes "1000 \<le> y" and "y \<le> 9999"
  shows "length (str_int y) = 4"
proof -
  define n where "n = nat y"
  with assms have n: "1000 \<le> n" "n \<le> 9999" by simp_all
  then have "\<not> n < 10" "\<not> n div 10 < 10" "\<not> n div 10 div 10 < 10" "n div 10 div 10 div 10 < 10"
    by (simp_all add: div_mult2_eq [symmetric] less_eq_div_iff_mult_less_eq div_less_iff_less_mult)
  then have "length (str_nat n) = 4"
    by (simp add: str_nat_length [of n] str_nat_length [of "n div 10"]
        str_nat_length [of "n div 10 div 10"] str_nat_length [of "n div 10 div 10 div 10"])
  with assms show ?thesis by (simp add: str_int_def n_def)
qed

text \<open>
  Claim C7. For every period parameter other than \<open>monthly\<close> and \<open>quarterly\<close>, malformed
  ones included, the period key of a record is the decimal string of the year of its order
  date (four digits for the years 1000 to 9999), and the sales-trends operation returns what
  it returns for \<open>yearly\<close>: one bucket for each year that occurs, in ascending order of the
  key, with the summed revenue and the number of the records of that year. The operation
  has no error result: the parameter is never rejected.
\<close>

theorem trends_unknown_period_is_yearly:
  assumes "p \<noteq> ''monthly''" and "p \<noteq> ''quarterly''"
  shows "period_key p t = str_int (year t)
     \<and> (1000 \<le> year t \<and> year t \<le> 9999 \<longrightarrow> length (period_key p t) = 4)
     \<and> get_sales_trends p reg d = get_sales_trends ''yearly'' reg d
     \<and> set (map trend.period (get_sales_trends p reg d))
         = (\<lambda>r. str_int (year (order_date r))) ` set (find_sales d reg)
     \<and> sorted (map trend.period (get_sales_trends p reg d))
     \<and> distinct (map trend.period (get_sales_trends p reg d))
     \<and> (\<forall>tr \<in> set (get_sales_trends p reg d).
          trend.revenue tr = sum_revenue
            (filter (\<lambda>r. str_int (year (order_date r)) = trend.period tr) (find_sales d reg))
          \<and> trend.orders tr = length
            (filter (\<lambda>r. str_int (year (order_date r)) = trend.period tr) (find_sales d reg)))"
proof -
  have k: "period_key p = (\<lambda>t. str_int (year t))"
    using assms by (intro ext) (rule period_key_yearly)
  have y: "get_sales_trends p reg d = get_sales_trends ''yearly'' reg d"
    unfolding get_sales_trends_def add_trend_yearly [OF assms] ..
  have e: "\<forall>tr \<in> set (get_sales_trends p reg d).
          trend.revenue tr = sum_revenue
            (filter (\<lambda>r. str_int (year (order_date r)) = trend.period tr) (find_sales d reg))
          \<and> trend.orders tr = length
            (filter (\<lambda>r. str_int (year (order_date r)) = trend.period tr) (find_sales d reg))"
    using trends_entries [of _ p reg d] unfolding k by blast
  from y e trends_periods [of p reg d] trends_sorted [of p reg d] str_int_four_digits [of "year t"]
  show ?thesis unfolding k by simp
qed

lemma sample_year_keys:
  "str_int (year (sample_date 2023 m d)) = ''2023''"
  "str_int (year (sample_date 2024 m d)) = ''2024''"
  by (simp_all add: sample_date_def str_int_def str_nat.simps digit_char_def)

lemma db_years_trends:
  "get_sales_trends ''weekly'' None db_years =
     [\<lparr>trend.period = ''2023'', trend.revenue = 350, trend.orders = 2\<rparr>,
      \<lparr>trend.period = ''2024'', trend.revenue = 300, trend.orders = 1\<rparr>]"
  by (simp add: get_sales_trends_def find_sales_def db_years_def add_trend_def period_key_def
      Let_def sample_order_dates sample_year_keys)

theorem trends_unknown_period_is_yearly_witness:
  "period_key ''weekly'' (sample_date 2023 11 5) = ''2023''
   \<and> get_sales_trends ''weekly'' None db_years = get_sales_trends ''yearly'' None db_years
   \<and> get_sales_trends ''yearly'' None db_years =
       [\<lparr>trend.period = ''2023'', trend.revenue = 350, trend.orders = 2\<rparr>,
        \<lparr>trend.period = ''2024'', trend.revenue = 300, trend.orders = 1\<rparr>]"
proof -
  have h: "''weekly'' \<noteq> ''monthly''" "''weekly'' \<noteq> ''quarterly''" by simp_all
  from trends_unknown_period_is_yearly [OF h, of "sample_date 2023 11 5" None db_years]
  have a: "period_key ''weekly'' (sample_date 2023 11 5) = str_int (year (sample_date 2023 11 5))"
    and b: "get_sales_trends ''weekly'' None db_years = get_sales_trends ''yearly'' None db_years"
    by blast+
  show ?thesis
    by (simp add: a b [symmetric] db_years_trends sample_year_keys)
qed

end
